theory Spec2Isabelle
  imports Complex_Main
begin

section \<open>Data model (\<^verbatim>\<open>fedchecker/ui/colors.py\<close>)\<close>

text \<open>
  \<^verbatim>\<open>CheckStatus\<close> is the enum of verdicts; \<^verbatim>\<open>CheckResult\<close> and
  \<^verbatim>\<open>CheckCategory\<close> are the two dataclasses. The fields of \<^verbatim>\<open>CheckResult\<close>
  keep their names and their order; the \<^verbatim>\<open>name\<close> field of \<^verbatim>\<open>CheckCategory\<close> is
  written \<open>cname\<close>, since a record field is a constant and \<open>name\<close> is already the field of
  \<^verbatim>\<open>CheckResult\<close>. Python's \<^verbatim>\<open>str\<close> is \<open>string\<close>, a character outside ASCII being
  the bytes of its UTF-8 encoding; where the code counts or slices characters, the model does
  so on that encoding (\<open>len_chars\<close>, \<open>take_chars\<close>, \<open>last_chars\<close> below).
\<close>

datatype CheckStatus = PASS | FAIL | WARN | SKIP | ERROR

record CheckResult =
  name :: string
  status :: CheckStatus
  message :: string
  details :: string
  fix_available :: bool
  fix_command :: string

record CheckCategory =
  cname :: string
  icon :: string
  results :: "CheckResult list"

text \<open>
  The derived properties. \<^verbatim>\<open>sum(1 for r in self.results if r.status == S)\<close> counts the
  results of status \<open>S\<close>. \<^verbatim>\<open>score\<close> is a Python \<^verbatim>\<open>float\<close>; its arithmetic is taken
  exactly, over the reals, with the source's order of operations.
\<close>

definition passed :: "CheckCategory \<Rightarrow> nat" where
  "passed c = length (filter (\<lambda>r. status r = PASS) (results c))"

definition failed :: "CheckCategory \<Rightarrow> nat" where
  "failed c = length (filter (\<lambda>r. status r = FAIL) (results c))"

definition warnings :: "CheckCategory \<Rightarrow> nat" where
  "warnings c = length (filter (\<lambda>r. status r = WARN) (results c))"

definition total :: "CheckCategory \<Rightarrow> nat" where
  "total c = length (results c)"

definition score :: "CheckCategory \<Rightarrow> real" where
  "score c =
     (if total c = 0 then 100
      else let passed_weight = real (passed c) * 1;
               warn_weight = real (warnings c) * 0.5
           in ((passed_weight + warn_weight) / real (total c)) * 100)"

definition overall_status :: "CheckCategory \<Rightarrow> CheckStatus" where
  "overall_status c =
     (if failed c > 0 then FAIL
      else if warnings c > 0 then WARN
      else PASS)"

section \<open>Python values used by the checks\<close>

text \<open>
  An exception is a value. \<open>Exception\<close> stands for an instance of \<^verbatim>\<open>Exception\<close> of a
  class the code never names, carrying \<^verbatim>\<open>str(e)\<close>; the next five are the subclasses of
  \<^verbatim>\<open>Exception\<close> that some \<^verbatim>\<open>except\<close> clause of the code names; the last three are
  not instances of \<^verbatim>\<open>Exception\<close>, so \<^verbatim>\<open>except Exception\<close> lets them through.
\<close>

datatype pyexc =
    Exception string
  | PermissionError string
  | FileNotFoundError string
  | TimeoutExpired string
  | NoSuchProcess string
  | AccessDenied string
  | KeyboardInterrupt
  | SystemExit int
  | OtherBaseException

fun is_Exception :: "pyexc \<Rightarrow> bool" where
  "is_Exception KeyboardInterrupt = False"
| "is_Exception (SystemExit _) = False"
| "is_Exception OtherBaseException = False"
| "is_Exception _ = True"

fun str_exc :: "pyexc \<Rightarrow> string" where
  "str_exc (Exception s) = s"
| "str_exc (PermissionError s) = s"
| "str_exc (FileNotFoundError s) = s"
| "str_exc (TimeoutExpired s) = s"
| "str_exc (NoSuchProcess s) = s"
| "str_exc (AccessDenied s) = s"
| "str_exc KeyboardInterrupt = []"
| "str_exc (SystemExit _) = []"
| "str_exc OtherBaseException = []"

text \<open>
  The string methods the checks use: \<^verbatim>\<open>s.startswith(p)\<close>, \<^verbatim>\<open>sep.join(xs)\<close>,
  \<^verbatim>\<open>sub in s\<close>, \<^verbatim>\<open>s.strip()\<close>, \<^verbatim>\<open>s.split(c)\<close> for a one-character separator,
  \<^verbatim>\<open>s.split()\<close>, \<^verbatim>\<open>s.lower()\<close> on ASCII, and \<^verbatim>\<open>str(n)\<close> of a natural number.
\<close>

definition startswith :: "string \<Rightarrow> string \<Rightarrow> bool" where
  "startswith s p = (take (length p) s = p)"

fun join :: "string \<Rightarrow> string list \<Rightarrow> string" where
  "join sep [] = []"
| "join sep [x] = x"
| "join sep (x # y # ys) = x @ sep @ join sep (y # ys)"

fun contains :: "string \<Rightarrow> string \<Rightarrow> bool" where
  "contains sub [] = (sub = [])"
| "contains sub (c # cs) = (startswith (c # cs) sub \<or> contains sub cs)"

definition isspace :: "char \<Rightarrow> bool" where
  "isspace c = (c \<in> set [CHR 0x09, CHR 0x0A, CHR 0x0B, CHR 0x0C, CHR 0x0D,
                          CHR 0x1C, CHR 0x1D, CHR 0x1E, CHR 0x1F, CHR '' ''])"

definition strip :: "string \<Rightarrow> string" where
  "strip s = rev (dropWhile isspace (rev (dropWhile isspace s)))"

fun split_by :: "(char \<Rightarrow> bool) \<Rightarrow> string \<Rightarrow> string list" where
  "split_by P [] = [[]]"
| "split_by P (x # xs) =
     (if P x then [] # split_by P xs
      else (case split_by P xs of
              [] \<Rightarrow> [[x]]
            | w # ws \<Rightarrow> (x # w) # ws))"

definition split_char :: "char \<Rightarrow> string \<Rightarrow> string list" where
  "split_char c s = split_by (\<lambda>x. x = c) s"

definition split_ws :: "string \<Rightarrow> string list" where
  "split_ws s = filter (\<lambda>w. w \<noteq> []) (split_by isspace s)"

definition lower_char :: "char \<Rightarrow> char" where
  "lower_char c =
     (if 65 \<le> (of_char c :: nat) \<and> (of_char c :: nat) \<le> 90
      then char_of ((of_char c :: nat) + 32) else c)"

definition lower :: "string \<Rightarrow> string" where
  "lower s = map lower_char s"

fun str_nat :: "nat \<Rightarrow> string" where
  "str_nat n =
     (if n < 10 then [''0123456789'' ! n]
      else str_nat (n div 10) @ [''0123456789'' ! (n mod 10)])"

declare str_nat.simps [simp del]

text \<open>
  \<^verbatim>\<open>len(s)\<close> and the slices \<^verbatim>\<open>s[:n]\<close>, \<^verbatim>\<open>s[n:]\<close> and \<^verbatim>\<open>s[-n:]\<close> of a
  \<^verbatim>\<open>str\<close> count characters, not bytes. In the UTF-8 encoding a character is one byte that
  is not of the form \<^verbatim>\<open>10xxxxxx\<close> followed by its continuation bytes, which are of that form;
  a slice never cuts a character.
\<close>

definition is_continuation :: "char \<Rightarrow> bool" where
  "is_continuation c = (digit7 c \<and> \<not> digit6 c)"

definition len_chars :: "string \<Rightarrow> nat" where
  "len_chars s = length (filter (\<lambda>c. \<not> is_continuation c) s)"

fun take_chars :: "nat \<Rightarrow> string \<Rightarrow> string" where
  "take_chars n [] = []"
| "take_chars n (c # cs) =
     (if is_continuation c then c # take_chars n cs
      else if n = 0 then []
      else c # take_chars (n - 1) cs)"

fun drop_chars :: "nat \<Rightarrow> string \<Rightarrow> string" where
  "drop_chars n [] = []"
| "drop_chars n (c # cs) =
     (if is_continuation c then drop_chars n cs
      else if n = 0 then c # cs
      else drop_chars (n - 1) cs)"

definition last_chars :: "nat \<Rightarrow> string \<Rightarrow> string" where
  "last_chars n s = drop_chars (len_chars s - n) s"

definition newline :: string where
  "newline = [CHR 0x0A]"

text \<open>
  The formatting of a \<^verbatim>\<open>float\<close> in an f-string (\<^verbatim>\<open>{x}\<close>, \<^verbatim>\<open>{x:.1f}\<close>,
  \<^verbatim>\<open>{x:.2f}\<close>) is a parameter of the checks: nothing below depends on the digits.
\<close>

record fmt =
  str_float :: "real \<Rightarrow> string"
  fmt_1f :: "real \<Rightarrow> string"
  fmt_2f :: "real \<Rightarrow> string"

text \<open>\<^verbatim>\<open>subprocess.CompletedProcess\<close>, as far as the code reads it.\<close>

record CompletedProcess =
  returncode :: int
  stdout :: string
  stderr :: string

section \<open>The category aggregator (\<^verbatim>\<open>run_all_checks\<close>)\<close>

text \<open>
  A check is called once in the loop of \<^verbatim>\<open>run_all_checks\<close>; what the call does is a
  value of \<open>pyexc + CheckResult\<close>: \<open>Inr\<close> the result it returns, \<open>Inl\<close> the exception
  it raises. \<open>check_failed\<close> is the result the \<^verbatim>\<open>except Exception as e\<close> branch builds,
  with the defaults of the dataclass for the fields it does not give.
\<close>

type_synonym check = "pyexc + CheckResult"

definition check_failed :: "string \<Rightarrow> pyexc \<Rightarrow> CheckResult" where
  "check_failed nm e =
     \<lparr>name = nm, status = ERROR, message = ''Check failed: '' @ str_exc e,
      details = [], fix_available = False, fix_command = []\<rparr>"

text \<open>
  The loop \<^verbatim>\<open>for name, check_func in checks\<close>, on the list \<^verbatim>\<open>self.results\<close>. An
  exception that is not an \<^verbatim>\<open>Exception\<close> leaves the loop and the method; the list keeps
  what was appended before.
\<close>

fun run_checks :: "(string \<times> check) list \<Rightarrow> CheckResult list \<Rightarrow> pyexc option \<times> CheckResult list" where
  "run_checks [] rs = (None, rs)"
| "run_checks ((nm, check_func) # checks) rs =
     (case check_func of
        Inr result \<Rightarrow> run_checks checks (rs @ [result])
      | Inl e \<Rightarrow>
          if is_Exception e then run_checks checks (rs @ [check_failed nm e])
          else (Some e, rs))"

text \<open>
  A checker object holds the list \<^verbatim>\<open>self.results\<close>. \<^verbatim>\<open>run_all_checks\<close> rebinds it to a
  new empty list, runs the table of checks and wraps the list in a category; it returns the
  category (or the exception that left the loop) and the checker as the call leaves it.
\<close>

record Checker =
  self_results :: "CheckResult list"

definition run_all_checks ::
  "string \<Rightarrow> string \<Rightarrow> (string \<times> check) list \<Rightarrow> Checker \<Rightarrow> (pyexc + CheckCategory) \<times> Checker" where
  "run_all_checks category_name category_icon checks self =
     (let self1 = self\<lparr>self_results := []\<rparr>;
          (raised, rs) = run_checks checks (self_results self1);
          self2 = self1\<lparr>self_results := rs\<rparr>
      in case raised of
           Some e \<Rightarrow> (Inl e, self2)
         | None \<Rightarrow>
             (Inr \<lparr>cname = category_name, icon = category_icon, results = self_results self2\<rparr>,
              self2))"

definition StatusIcon_HEALTH :: string where
  "StatusIcon_HEALTH = ''[bold green]'' @ [CHR 0xF0, CHR 0x9F, CHR 0x8F, CHR 0xA5] @ ''[/]''"

definition StatusIcon_DRIVER :: string where
  "StatusIcon_DRIVER = ''[bold yellow]'' @ [CHR 0xF0, CHR 0x9F, CHR 0x94, CHR 0xA7] @ ''[/]''"

section \<open>The health checks (\<^verbatim>\<open>fedchecker/checks/health.py\<close>)\<close>

text \<open>
  What the ten checks read from the system: each field is one call of \<^verbatim>\<open>psutil\<close>,
  \<^verbatim>\<open>os\<close> or \<^verbatim>\<open>subprocess.run\<close> with what it returns or raises. A partition is its
  \<^verbatim>\<open>fstype\<close> and \<^verbatim>\<open>mountpoint\<close>; a process is its \<^verbatim>\<open>pid\<close>, \<^verbatim>\<open>name\<close> and
  \<^verbatim>\<open>status\<close>; \<^verbatim>\<open>subprocess_run\<close> takes the command and the timeout.
\<close>

record health_env =
  disk_partitions :: "pyexc + (string \<times> string) list"
  disk_usage :: "string \<Rightarrow> pyexc + real"
  virtual_memory :: "pyexc + (real \<times> nat)"
  sensors_temperatures :: "pyexc + (string \<times> real list) list"
  swap_memory :: "pyexc + (nat \<times> real)"
  subprocess_run :: "string list \<Rightarrow> nat \<Rightarrow> pyexc + CompletedProcess"
  getloadavg :: "pyexc + (real \<times> real \<times> real)"
  cpu_count :: "nat option"
  process_iter :: "pyexc + (pyexc + (nat \<times> string \<times> string)) list"

definition GiB :: real where
  "GiB = 1024 ^ 3"

text \<open>\<^verbatim>\<open>check_disk_space\<close>: the loop over the partitions, then the verdict.\<close>

fun scan_partitions ::
  "fmt \<Rightarrow> health_env \<Rightarrow> (string \<times> string) list \<Rightarrow> string list \<Rightarrow> string list
   \<Rightarrow> pyexc + (string list \<times> string list)" where
  "scan_partitions F env [] warns critical = Inr (warns, critical)"
| "scan_partitions F env ((fstype, mountpoint) # ps) warns critical =
     (if fstype \<noteq> [] \<and> \<not> startswith mountpoint ''/snap'' then
        (case disk_usage env mountpoint of
           Inl (PermissionError _) \<Rightarrow> scan_partitions F env ps warns critical
         | Inl e \<Rightarrow> Inl e
         | Inr percent_used \<Rightarrow>
             if percent_used \<ge> 95 then
               scan_partitions F env ps warns
                 (critical @ [mountpoint @ '': '' @ str_float F percent_used @ ''% used''])
             else if percent_used \<ge> 85 then
               scan_partitions F env ps
                 (warns @ [mountpoint @ '': '' @ str_float F percent_used @ ''% used'']) critical
             else scan_partitions F env ps warns critical)
      else scan_partitions F env ps warns critical)"

definition check_disk_space :: "fmt \<Rightarrow> health_env \<Rightarrow> check" where
  "check_disk_space F env =
     (case disk_partitions env of
        Inl e \<Rightarrow> Inl e
      | Inr partitions \<Rightarrow>
          (case scan_partitions F env partitions [] [] of
             Inl e \<Rightarrow> Inl e
           | Inr (warns, critical) \<Rightarrow>
               if critical \<noteq> [] then
                 Inr \<lparr>name = ''Disk Space'', status = FAIL,
                      message = ''Critical: '' @ str_nat (length critical) @ '' partition(s) nearly full'',
                      details = join newline (critical @ warns),
                      fix_available = True,
                      fix_command = ''dnf autoremove && dnf clean all''\<rparr>
               else if warns \<noteq> [] then
                 Inr \<lparr>name = ''Disk Space'', status = WARN,
                      message = ''Warning: '' @ str_nat (length warns) @ '' partition(s) above 85%'',
                      details = join newline warns,
                      fix_available = True,
                      fix_command = ''dnf autoremove && dnf clean all''\<rparr>
               else
                 (case disk_usage env ''/'' of
                    Inl e \<Rightarrow> Inl e
                  | Inr root_usage \<Rightarrow>
                      Inr \<lparr>name = ''Disk Space'', status = PASS,
                           message = ''Root partition: '' @ str_float F root_usage @ ''% used'',
                           details = [], fix_available = False, fix_command = []\<rparr>)))"

definition check_memory :: "fmt \<Rightarrow> health_env \<Rightarrow> check" where
  "check_memory F env =
     (case virtual_memory env of
        Inl e \<Rightarrow> Inl e
      | Inr (percent_used, available) \<Rightarrow>
          let available_gb = real available / GiB in
          if percent_used \<ge> 95 then
            Inr \<lparr>name = ''Memory Usage'', status = FAIL,
                 message = ''Critical: '' @ str_float F percent_used @ ''% RAM used'',
                 details = ''Only '' @ fmt_1f F available_gb @ '' GB available'',
                 fix_available = False, fix_command = []\<rparr>
          else if percent_used \<ge> 85 then
            Inr \<lparr>name = ''Memory Usage'', status = WARN,
                 message = ''Warning: '' @ str_float F percent_used @ ''% RAM used'',
                 details = fmt_1f F available_gb @ '' GB available'',
                 fix_available = False, fix_command = []\<rparr>
          else
            Inr \<lparr>name = ''Memory Usage'', status = PASS,
                 message = str_float F percent_used @ ''% used ('' @ fmt_1f F available_gb @ '' GB free)'',
                 details = [], fix_available = False, fix_command = []\<rparr>)"

text \<open>
  \<^verbatim>\<open>check_cpu_temperature\<close>: \<^verbatim>\<open>max_temp\<close> starts as the integer 0 and takes the
  reading that exceeds it; the whole body is under \<^verbatim>\<open>except Exception\<close>.
\<close>

definition degree_C :: string where
  "degree_C = [CHR 0xC2, CHR 0xB0] @ ''C''"

definition max_temp_of :: "(string \<times> real list) list \<Rightarrow> real" where
  "max_temp_of temps =
     foldl (\<lambda>max_temp current. if current > max_temp then current else max_temp) 0
       (concat (map snd temps))"

definition str_temp :: "fmt \<Rightarrow> real \<Rightarrow> string" where
  "str_temp F max_temp = (if max_temp = 0 then ''0'' else str_float F max_temp)"

definition check_cpu_temperature :: "fmt \<Rightarrow> health_env \<Rightarrow> check" where
  "check_cpu_temperature F env =
     (case sensors_temperatures env of
        Inl e \<Rightarrow>
          if is_Exception e then
            Inr \<lparr>name = ''CPU Temperature'', status = SKIP,
                 message = ''Unable to read temperature'',
                 details = [], fix_available = False, fix_command = []\<rparr>
          else Inl e
      | Inr temps \<Rightarrow>
          if temps = [] then
            Inr \<lparr>name = ''CPU Temperature'', status = SKIP,
                 message = ''Temperature sensors not available'',
                 details = [], fix_available = False, fix_command = []\<rparr>
          else
            let max_temp = max_temp_of temps in
            if max_temp \<ge> 90 then
              Inr \<lparr>name = ''CPU Temperature'', status = FAIL,
                   message = ''Critical: '' @ str_temp F max_temp @ degree_C,
                   details = ''CPU is overheating!'',
                   fix_available = False, fix_command = []\<rparr>
            else if max_temp \<ge> 75 then
              Inr \<lparr>name = ''CPU Temperature'', status = WARN,
                   message = ''Warning: '' @ str_temp F max_temp @ degree_C,
                   details = ''CPU temperature is high'',
                   fix_available = False, fix_command = []\<rparr>
            else
              Inr \<lparr>name = ''CPU Temperature'', status = PASS,
                   message = str_temp F max_temp @ degree_C,
                   details = [], fix_available = False, fix_command = []\<rparr>)"

definition check_swap :: "fmt \<Rightarrow> health_env \<Rightarrow> check" where
  "check_swap F env =
     (case swap_memory env of
        Inl e \<Rightarrow> Inl e
      | Inr (swap_total, percent_used) \<Rightarrow>
          if swap_total = 0 then
            Inr \<lparr>name = ''Swap Space'', status = WARN,
                 message = ''No swap configured'',
                 details = ''Consider adding swap for stability'',
                 fix_available = True,
                 fix_command = ''fallocate -l 4G /swapfile && chmod 600 /swapfile && mkswap /swapfile && swapon /swapfile''\<rparr>
          else
            let swap_gb = real swap_total / GiB in
            if percent_used \<ge> 80 then
              Inr \<lparr>name = ''Swap Space'', status = WARN,
                   message = ''Swap '' @ str_float F percent_used @ ''% used'',
                   details = fmt_1f F swap_gb @ '' GB total swap'',
                   fix_available = False, fix_command = []\<rparr>
            else
              Inr \<lparr>name = ''Swap Space'', status = PASS,
                   message = fmt_1f F swap_gb @ '' GB configured, '' @ str_float F percent_used @ ''% used'',
                   details = [], fix_available = False, fix_command = []\<rparr>)"

text \<open>
  \<^verbatim>\<open>check_failed_units\<close>: \<^verbatim>\<open>line.split()[0]\<close> raises \<^verbatim>\<open>IndexError\<close> on a line of
  white space only, and only \<^verbatim>\<open>TimeoutExpired\<close> is caught.
\<close>

fun first_words :: "string list \<Rightarrow> pyexc + string list" where
  "first_words [] = Inr []"
| "first_words (line # rest) =
     (case split_ws line of
        [] \<Rightarrow> Inl (Exception ''list index out of range'')
      | w # _ \<Rightarrow> (case first_words rest of Inl e \<Rightarrow> Inl e | Inr ws \<Rightarrow> Inr (w # ws)))"

definition check_failed_units :: "health_env \<Rightarrow> check" where
  "check_failed_units env =
     (case subprocess_run env [''systemctl'', ''--failed'', ''--no-legend'', ''--no-pager''] 10 of
        Inl (TimeoutExpired _) \<Rightarrow>
          Inr \<lparr>name = ''Failed Systemd Units'', status = SKIP, message = ''Check timed out'',
               details = [], fix_available = False, fix_command = []\<rparr>
      | Inl e \<Rightarrow> Inl e
      | Inr result \<Rightarrow>
          (case first_words (filter (\<lambda>line. line \<noteq> []) (split_char (CHR 0x0A) (strip (stdout result)))) of
             Inl e \<Rightarrow> Inl e
           | Inr failed_units \<Rightarrow>
               if failed_units \<noteq> [] then
                 Inr \<lparr>name = ''Failed Systemd Units'', status = FAIL,
                      message = str_nat (length failed_units) @ '' failed unit(s)'',
                      details = join newline (take 5 failed_units),
                      fix_available = True,
                      fix_command = ''systemctl reset-failed''\<rparr>
               else
                 Inr \<lparr>name = ''Failed Systemd Units'', status = PASS, message = ''No failed units'',
                      details = [], fix_available = False, fix_command = []\<rparr>))"

text \<open>\<^verbatim>\<open>check_system_load\<close>: \<^verbatim>\<open>os.cpu_count() or 1\<close> is 1 for \<^verbatim>\<open>None\<close> and for 0.\<close>

definition check_system_load :: "fmt \<Rightarrow> health_env \<Rightarrow> check" where
  "check_system_load F env =
     (case getloadavg env of
        Inl e \<Rightarrow> Inl e
      | Inr (load1, load5, load15) \<Rightarrow>
          let cpus = (case cpu_count env of None \<Rightarrow> 1 | Some n \<Rightarrow> if n = 0 then 1 else n);
              load_per_cpu = load1 / real cpus
          in
          if load_per_cpu \<ge> 2 then
            Inr \<lparr>name = ''System Load'', status = FAIL,
                 message = ''High load: '' @ fmt_2f F load1,
                 details = ''Load avg: '' @ fmt_2f F load1 @ '', '' @ fmt_2f F load5 @ '', ''
                           @ fmt_2f F load15 @ '' ('' @ str_nat cpus @ '' CPUs)'',
                 fix_available = False, fix_command = []\<rparr>
          else if load_per_cpu \<ge> 1 then
            Inr \<lparr>name = ''System Load'', status = WARN,
                 message = ''Elevated load: '' @ fmt_2f F load1,
                 details = ''Load avg: '' @ fmt_2f F load1 @ '', '' @ fmt_2f F load5 @ '', ''
                           @ fmt_2f F load15,
                 fix_available = False, fix_command = []\<rparr>
          else
            Inr \<lparr>name = ''System Load'', status = PASS,
                 message = ''Load: '' @ fmt_2f F load1 @ '' ('' @ str_nat cpus @ '' CPUs)'',
                 details = [], fix_available = False, fix_command = []\<rparr>)"

text \<open>
  \<^verbatim>\<open>check_zombie_processes\<close>: reading \<^verbatim>\<open>proc.info\<close> either gives the three fields or
  raises; \<^verbatim>\<open>NoSuchProcess\<close> and \<^verbatim>\<open>AccessDenied\<close> skip the process.
\<close>

fun scan_zombies :: "(pyexc + (nat \<times> string \<times> string)) list \<Rightarrow> string list \<Rightarrow> pyexc + string list" where
  "scan_zombies [] zombies = Inr zombies"
| "scan_zombies (proc # procs) zombies =
     (case proc of
        Inl (NoSuchProcess _) \<Rightarrow> scan_zombies procs zombies
      | Inl (AccessDenied _) \<Rightarrow> scan_zombies procs zombies
      | Inl e \<Rightarrow> Inl e
      | Inr (pid, pname, pstatus) \<Rightarrow>
          if pstatus = ''zombie''
          then scan_zombies procs (zombies @ [''PID '' @ str_nat pid @ '': '' @ pname])
          else scan_zombies procs zombies)"

definition check_zombie_processes :: "health_env \<Rightarrow> check" where
  "check_zombie_processes env =
     (case process_iter env of
        Inl e \<Rightarrow> Inl e
      | Inr procs \<Rightarrow>
          (case scan_zombies procs [] of
             Inl e \<Rightarrow> Inl e
           | Inr zombies \<Rightarrow>
               if zombies \<noteq> [] then
                 Inr \<lparr>name = ''Zombie Processes'', status = WARN,
                      message = str_nat (length zombies) @ '' zombie process(es)'',
                      details = join newline (take 5 zombies),
                      fix_available = False, fix_command = []\<rparr>
               else
                 Inr \<lparr>name = ''Zombie Processes'', status = PASS,
                      message = ''No zombie processes'',
                      details = [], fix_available = False, fix_command = []\<rparr>))"

definition check_dnf_status :: "health_env \<Rightarrow> check" where
  "check_dnf_status env =
     (case subprocess_run env [''dnf'', ''check'', ''--quiet''] 30 of
        Inl (FileNotFoundError _) \<Rightarrow>
          Inr \<lparr>name = ''Package Manager'', status = ERROR, message = ''DNF not found'',
               details = [], fix_available = False, fix_command = []\<rparr>
      | Inl (TimeoutExpired _) \<Rightarrow>
          Inr \<lparr>name = ''Package Manager'', status = SKIP, message = ''Check timed out'',
               details = [], fix_available = False, fix_command = []\<rparr>
      | Inl e \<Rightarrow> Inl e
      | Inr result \<Rightarrow>
          if returncode result \<noteq> 0 then
            Inr \<lparr>name = ''Package Manager'', status = FAIL, message = ''DNF reports issues'',
                 details = (if stderr result \<noteq> [] then take_chars 200 (stderr result)
                            else ''Package database may be corrupted''),
                 fix_available = True,
                 fix_command = ''dnf check && dnf distro-sync''\<rparr>
          else
            Inr \<lparr>name = ''Package Manager'', status = PASS, message = ''DNF is healthy'',
                 details = [], fix_available = False, fix_command = []\<rparr>)"

definition check_journal_errors :: "health_env \<Rightarrow> check" where
  "check_journal_errors env =
     (case subprocess_run env [''journalctl'', ''-p'', ''err'', ''-b'', ''--no-pager'', ''-q''] 15 of
        Inl e \<Rightarrow>
          if is_Exception e then
            Inr \<lparr>name = ''Journal Errors'', status = SKIP, message = ''Unable to read journal'',
                 details = [], fix_available = False, fix_command = []\<rparr>
          else Inl e
      | Inr result \<Rightarrow>
          let errors = split_char (CHR 0x0A) (strip (stdout result));
              error_count = length (filter (\<lambda>e. e \<noteq> []) errors)
          in
          if error_count > 100 then
            Inr \<lparr>name = ''Journal Errors'', status = WARN,
                 message = str_nat error_count @ '' errors since boot'',
                 details = ''Many errors in journal. Check 'journalctl -p err -b' '',
                 fix_available = False, fix_command = []\<rparr>
          else if error_count > 0 then
            Inr \<lparr>name = ''Journal Errors'', status = PASS,
                 message = str_nat error_count @ '' error(s) since boot'',
                 details = [], fix_available = False, fix_command = []\<rparr>
          else
            Inr \<lparr>name = ''Journal Errors'', status = PASS, message = ''No errors since boot'',
                 details = [], fix_available = False, fix_command = []\<rparr>)"

definition check_orphaned_packages :: "health_env \<Rightarrow> check" where
  "check_orphaned_packages env =
     (case subprocess_run env [''dnf'', ''repoquery'', ''--extras'', ''--quiet''] 60 of
        Inl e \<Rightarrow>
          if is_Exception e then
            Inr \<lparr>name = ''Orphaned Packages'', status = SKIP, message = ''Unable to check'',
                 details = [], fix_available = False, fix_command = []\<rparr>
          else Inl e
      | Inr result \<Rightarrow>
          let packages = filter (\<lambda>p. p \<noteq> []) (split_char (CHR 0x0A) (strip (stdout result))) in
          if length packages > 10 then
            Inr \<lparr>name = ''Orphaned Packages'', status = WARN,
                 message = str_nat (length packages) @ '' orphaned package(s)'',
                 details = ''Run 'dnf autoremove' to clean up'',
                 fix_available = True,
                 fix_command = ''dnf autoremove''\<rparr>
          else
            Inr \<lparr>name = ''Orphaned Packages'', status = PASS,
                 message = (if packages \<noteq> [] then str_nat (length packages) @ '' orphaned package(s)''
                            else ''No orphaned packages''),
                 details = [], fix_available = False, fix_command = []\<rparr>)"

text \<open>The table \<^verbatim>\<open>checks\<close> of \<^verbatim>\<open>HealthChecker.run_all_checks\<close>, and the method.\<close>

definition health_checks :: "fmt \<Rightarrow> health_env \<Rightarrow> (string \<times> check) list" where
  "health_checks F env =
     [(''Disk Space'', check_disk_space F env),
      (''Memory Usage'', check_memory F env),
      (''CPU Temperature'', check_cpu_temperature F env),
      (''Swap Space'', check_swap F env),
      (''Failed Systemd Units'', check_failed_units env),
      (''System Load'', check_system_load F env),
      (''Zombie Processes'', check_zombie_processes env),
      (''Package Manager'', check_dnf_status env),
      (''Journal Errors'', check_journal_errors env),
      (''Orphaned Packages'', check_orphaned_packages env)]"

definition HealthChecker_run_all_checks ::
  "fmt \<Rightarrow> health_env \<Rightarrow> Checker \<Rightarrow> (pyexc + CheckCategory) \<times> Checker" where
  "HealthChecker_run_all_checks F env self =
     run_all_checks ''Health Check'' StatusIcon_HEALTH (health_checks F env) self"

section \<open>The driver, security and desktop checks\<close>

text \<open>
  The checks of the three other modules read the system through the same calls:
  \<^verbatim>\<open>subprocess.run\<close> (\<open>proc\<close>, with the command and the timeout), the file system
  (\<^verbatim>\<open>exists\<close>, \<^verbatim>\<open>os.access(p, os.R_OK)\<close>, \<^verbatim>\<open>is_file\<close>, \<^verbatim>\<open>read_text\<close>,
  \<^verbatim>\<open>os.readlink\<close>, \<^verbatim>\<open>iterdir\<close>, \<^verbatim>\<open>glob\<close>, the mode bits of \<^verbatim>\<open>stat\<close>) and the
  process environment. Each call that can raise gives \<open>Inl\<close> of the exception. The
  regular expressions are a second parameter: \<open>re_match\<close> and \<open>re_search\<close> take the
  pattern, the flags and the text and give the groups of the match, \<open>re_findall\<close> gives
  the list of matches.
\<close>

record probe_env =
  proc :: "string list \<Rightarrow> nat \<Rightarrow> pyexc + CompletedProcess"
  exists_path :: "string \<Rightarrow> bool"
  access_r :: "string \<Rightarrow> bool"
  is_file :: "string \<Rightarrow> bool"
  read_text :: "string \<Rightarrow> pyexc + string"
  readlink :: "string \<Rightarrow> pyexc + string"
  iterdir :: "string \<Rightarrow> pyexc + string list"
  glob :: "string \<Rightarrow> string \<Rightarrow> pyexc + string list"
  stat_mode :: "string \<Rightarrow> pyexc + nat"
  environ :: "string \<Rightarrow> string option"

record regex =
  re_match :: "string \<Rightarrow> string list \<Rightarrow> string \<Rightarrow> string list option"
  re_search :: "string \<Rightarrow> string list \<Rightarrow> string \<Rightarrow> string list option"
  re_findall :: "string \<Rightarrow> string list \<Rightarrow> string \<Rightarrow> string list"

text \<open>Sequencing of calls that may raise: the first exception leaves the check.\<close>

definition then_do :: "pyexc + 'a \<Rightarrow> ('a \<Rightarrow> pyexc + 'b) \<Rightarrow> pyexc + 'b" where
  "then_do call rest = (case call of Inl e \<Rightarrow> Inl e | Inr v \<Rightarrow> rest v)"

text \<open>
  \<^verbatim>\<open>_run_command\<close> of the three checkers: \<^verbatim>\<open>TimeoutExpired\<close> and
  \<^verbatim>\<open>FileNotFoundError\<close> give \<^verbatim>\<open>(False, str(e))\<close>; the default timeout is 10.
\<close>

definition probe_run :: "probe_env \<Rightarrow> string list \<Rightarrow> nat \<Rightarrow> pyexc + (bool \<times> string)" where
  "probe_run env cmd timeout =
     (case proc env cmd timeout of
        Inr result \<Rightarrow> Inr (returncode result = 0, stdout result @ stderr result)
      | Inl (TimeoutExpired s) \<Rightarrow> Inr (False, s)
      | Inl (FileNotFoundError s) \<Rightarrow> Inr (False, s)
      | Inl e \<Rightarrow> Inl e)"

text \<open>More string methods: \<^verbatim>\<open>upper\<close>, \<^verbatim>\<open>os.path.basename\<close>, \<^verbatim>\<open>s.count(sub)\<close>,
  \<^verbatim>\<open>s.rsplit(c, 1)[-1]\<close>, \<^verbatim>\<open>s.replace(old, new)\<close>, \<^verbatim>\<open>s.strip(chars)\<close>,
  \<^verbatim>\<open>oct(n)\<close> and \<^verbatim>\<open>int(s)\<close> of a string of digits.\<close>

definition upper_char :: "char \<Rightarrow> char" where
  "upper_char c =
     (if 97 \<le> (of_char c :: nat) \<and> (of_char c :: nat) \<le> 122
      then char_of ((of_char c :: nat) - 32) else c)"

definition upper :: "string \<Rightarrow> string" where
  "upper s = map upper_char s"

definition after_last :: "char \<Rightarrow> string \<Rightarrow> string" where
  "after_last c s = rev (takeWhile (\<lambda>x. x \<noteq> c) (rev s))"

definition basename :: "string \<Rightarrow> string" where
  "basename p = after_last (CHR ''/'') p"

function count_sub :: "string \<Rightarrow> string \<Rightarrow> nat" where
  "count_sub sub s =
     (if sub = [] then Suc (length s)
      else if s = [] then 0
      else if startswith s sub then Suc (count_sub sub (drop (length sub) s))
      else count_sub sub (tl s))"
  by pat_completeness auto
termination
  by (relation "measure (\<lambda>(sub, s). length s)") (auto simp: neq_Nil_conv)

declare count_sub.simps [simp del]

function replace :: "string \<Rightarrow> string \<Rightarrow> string \<Rightarrow> string" where
  "replace old new s =
     (if old = [] then s
      else if s = [] then []
      else if startswith s old then new @ replace old new (drop (length old) s)
      else hd s # replace old new (tl s))"
  by pat_completeness auto
termination
  by (relation "measure (\<lambda>(old, new, s). length s)") (auto simp: neq_Nil_conv)

declare replace.simps [simp del]

definition strip_chars :: "string \<Rightarrow> string \<Rightarrow> string" where
  "strip_chars chars s =
     rev (dropWhile (\<lambda>c. c \<in> set chars) (rev (dropWhile (\<lambda>c. c \<in> set chars) s)))"

fun oct_digits :: "nat \<Rightarrow> string" where
  "oct_digits n =
     (if n < 8 then [''01234567'' ! n]
      else oct_digits (n div 8) @ [''01234567'' ! (n mod 8)])"

declare oct_digits.simps [simp del]

definition oct :: "nat \<Rightarrow> string" where
  "oct n = ''0o'' @ oct_digits n"

definition digit_value :: "char \<Rightarrow> nat" where
  "digit_value c = (of_char c :: nat) - 48"

definition int_of_digits :: "string \<Rightarrow> nat" where
  "int_of_digits s = foldl (\<lambda>n c. 10 * n + digit_value c) 0 s"

subsection \<open>\<^verbatim>\<open>DriverChecker\<close> (\<^verbatim>\<open>checks/drivers.py\<close>)\<close>

text \<open>
  The patterns of the driver checks; \<open>bs\<close> is the backslash, the escapes being those
  of the module \<^verbatim>\<open>re\<close>.
\<close>

definition bs :: string where
  "bs = [CHR 0x5C]"

definition pat_kernel_driver :: string where
  "pat_kernel_driver = ''Kernel driver in use: ('' @ bs @ ''w+)''"

definition pat_interface :: string where
  "pat_interface = bs @ ''d+: ('' @ bs @ ''w+):''"

definition pat_sound_card :: string where
  "pat_sound_card = ''^'' @ bs @ ''s*'' @ bs @ ''d+'' @ bs @ ''s+'' @ bs @ ''[''"

definition pat_video_device :: string where
  "pat_video_device = ''/dev/video'' @ bs @ ''d+''"

definition pat_missing_firmware :: string where
  "pat_missing_firmware = ''firmware: failed to load ('' @ bs @ ''S+)''"

definition pat_failed_module :: string where
  "pat_failed_module = ''('' @ bs @ ''w+): probe of .* failed''"

text \<open>
  \<^verbatim>\<open>check_gpu_driver\<close>: the loop keeps the lines that name a graphics device and the
  tab-indented lines after each of them.
\<close>

fun collect_vga :: "string list \<Rightarrow> bool \<Rightarrow> string list \<Rightarrow> string list" where
  "collect_vga [] capturing vga_lines = vga_lines"
| "collect_vga (line # lines) capturing vga_lines =
     (if contains ''VGA'' line \<or> contains ''3D controller'' line
         \<or> contains ''Display controller'' line
      then collect_vga lines True (vga_lines @ [line])
      else if capturing then
        (if startswith line [CHR 0x09] then collect_vga lines capturing (vga_lines @ [line])
         else collect_vga lines False vga_lines)
      else collect_vga lines capturing vga_lines)"

definition gpu_pass :: "regex \<Rightarrow> string \<Rightarrow> string \<Rightarrow> string \<Rightarrow> string list \<Rightarrow> CheckResult" where
  "gpu_pass R vendor driver gpu_text vga_lines =
     (let driver1 = (case re_search R pat_kernel_driver [] gpu_text of
                       Some (g # _) \<Rightarrow> g
                     | _ \<Rightarrow> driver)
      in \<lparr>name = ''GPU Driver'', status = PASS, message = vendor @ '': '' @ driver1,
          details = (if vga_lines \<noteq> [] then hd vga_lines else []),
          fix_available = False, fix_command = []\<rparr>)"

definition check_gpu_driver :: "regex \<Rightarrow> probe_env \<Rightarrow> check" where
  "check_gpu_driver R env =
     then_do (probe_run env [''lspci'', ''-nnk''] 10) (\<lambda>(ok, output).
       if \<not> ok then
         Inr \<lparr>name = ''GPU Driver'', status = SKIP, message = ''Unable to detect GPU'',
              details = [], fix_available = False, fix_command = []\<rparr>
       else
         let vga_lines = collect_vga (split_char (CHR 0x0A) output) False [] in
         if vga_lines = [] then
           Inr \<lparr>name = ''GPU Driver'', status = WARN, message = ''No GPU detected'',
                details = [], fix_available = False, fix_command = []\<rparr>
         else
           let gpu_text = join newline vga_lines in
           if contains ''NVIDIA'' (upper gpu_text) then
             if contains ''nvidia'' (lower gpu_text)
                \<and> contains ''Kernel driver in use: nvidia'' gpu_text
             then Inr (gpu_pass R ''NVIDIA'' ''nvidia (proprietary)'' gpu_text vga_lines)
             else if contains ''nouveau'' (lower gpu_text) then
               Inr \<lparr>name = ''GPU Driver'', status = WARN,
                    message = ''NVIDIA using nouveau driver'',
                    details = ''Consider installing nvidia-driver for better performance'',
                    fix_available = True,
                    fix_command = ''dnf install akmod-nvidia xorg-x11-drv-nvidia-cuda''\<rparr>
             else
               Inr \<lparr>name = ''GPU Driver'', status = FAIL,
                    message = ''NVIDIA GPU without proper driver'',
                    details = [], fix_available = True,
                    fix_command = ''dnf install akmod-nvidia''\<rparr>
           else if contains ''AMD'' (upper gpu_text) \<or> contains ''ATI'' (upper gpu_text)
                   \<or> contains ''Radeon'' gpu_text then
             Inr (gpu_pass R ''AMD''
                    (if contains ''amdgpu'' (lower gpu_text) then ''amdgpu''
                     else if contains ''radeon'' (lower gpu_text) then ''radeon''
                     else ''Unknown'')
                    gpu_text vga_lines)
           else if contains ''Intel'' gpu_text then
             Inr (gpu_pass R ''Intel''
                    (if contains ''i915'' (lower gpu_text) then ''i915'' else ''Unknown'')
                    gpu_text vga_lines)
           else Inr (gpu_pass R ''Unknown'' ''Unknown'' gpu_text vga_lines))"

text \<open>
  The interfaces of \<^verbatim>\<open>ip link show\<close> whose line holds one of the given words, by the
  group of the match of \<open>pat_interface\<close>; the loop of \<^verbatim>\<open>check_wifi_driver\<close> and of
  \<^verbatim>\<open>check_ethernet\<close>.
\<close>

fun interfaces_of :: "regex \<Rightarrow> string list \<Rightarrow> string list \<Rightarrow> string list" where
  "interfaces_of R words [] = []"
| "interfaces_of R words (line # lines) =
     (if (\<exists>w \<in> set words. contains w (lower line)) then
        (case re_match R pat_interface [] line of
           Some (g # _) \<Rightarrow> g # interfaces_of R words lines
         | _ \<Rightarrow> interfaces_of R words lines)
      else interfaces_of R words lines)"

definition driver_of :: "probe_env \<Rightarrow> string \<Rightarrow> pyexc + string" where
  "driver_of env interface =
     (let driver_path = ''/sys/class/net/'' @ interface @ ''/device/driver'' in
      if exists_path env driver_path
      then then_do (readlink env driver_path) (\<lambda>target. Inr (basename target))
      else Inr ''unknown'')"

definition check_wifi_driver :: "regex \<Rightarrow> probe_env \<Rightarrow> check" where
  "check_wifi_driver R env =
     then_do (probe_run env [''ip'', ''link'', ''show''] 10) (\<lambda>(ok, output).
       let wireless_interfaces =
             (if ok then interfaces_of R [''wl'', ''wlan''] (split_char (CHR 0x0A) output) else [])
       in
       if wireless_interfaces = [] then
         then_do (probe_run env [''lspci'', ''-nnk''] 10) (\<lambda>(ok1, lspci).
           if contains ''Wireless'' lspci \<or> contains ''Wi-Fi'' lspci \<or> contains ''WLAN'' lspci
           then
             Inr \<lparr>name = ''WiFi Driver'', status = FAIL,
                  message = ''WiFi hardware found but no driver loaded'',
                  details = [], fix_available = True,
                  fix_command = ''dnf install linux-firmware iwlwifi-firmware''\<rparr>
           else
             Inr \<lparr>name = ''WiFi Driver'', status = SKIP, message = ''No WiFi hardware detected'',
                  details = [], fix_available = False, fix_command = []\<rparr>)
       else
         let interface = hd wireless_interfaces in
         then_do (driver_of env interface) (\<lambda>driver.
         then_do (probe_run env [''rfkill'', ''list'', ''wifi''] 10) (\<lambda>(ok2, rfkill).
           if contains ''Soft blocked: yes'' rfkill \<or> contains ''Hard blocked: yes'' rfkill then
             Inr \<lparr>name = ''WiFi Driver'', status = WARN,
                  message = driver @ '' driver loaded, WiFi blocked'',
                  details = ''Interface: '' @ interface,
                  fix_available = True, fix_command = ''rfkill unblock wifi''\<rparr>
           else
             Inr \<lparr>name = ''WiFi Driver'', status = PASS,
                  message = driver @ '' ('' @ interface @ '')'',
                  details = [], fix_available = False, fix_command = []\<rparr>)))"

definition check_audio_driver :: "regex \<Rightarrow> probe_env \<Rightarrow> check" where
  "check_audio_driver R env =
     (if \<not> exists_path env ''/proc/asound/cards'' then
        Inr \<lparr>name = ''Audio Driver'', status = FAIL, message = ''No sound subsystem detected'',
             details = [], fix_available = True,
             fix_command = ''dnf install alsa-plugins-pulseaudio pipewire-alsa''\<rparr>
      else
        then_do (read_text env ''/proc/asound/cards'') (\<lambda>cards.
          if contains ''no soundcards'' (lower cards) \<or> strip cards = [] then
            Inr \<lparr>name = ''Audio Driver'', status = FAIL, message = ''No sound cards found'',
                 details = [], fix_available = True,
                 fix_command = ''dnf install alsa-firmware sof-firmware''\<rparr>
          else
            then_do (probe_run env [''systemctl'', ''--user'', ''is-active'', ''pipewire''] 10)
              (\<lambda>(ok, pw).
            then_do (if ok \<and> contains ''active'' pw then Inr ''PipeWire''
                     else then_do
                            (probe_run env [''systemctl'', ''--user'', ''is-active'', ''pulseaudio''] 10)
                            (\<lambda>(ok1, pa). if ok1 \<and> contains ''active'' pa then Inr ''PulseAudio''
                                          else Inr ''Unknown''))
              (\<lambda>audio_server.
                let card_count = length (re_findall R pat_sound_card [''MULTILINE''] cards) in
                Inr \<lparr>name = ''Audio Driver'', status = PASS,
                     message = str_nat card_count @ '' card(s), '' @ audio_server,
                     details = [], fix_available = False, fix_command = []\<rparr>))))"

definition check_bluetooth :: "probe_env \<Rightarrow> check" where
  "check_bluetooth env =
     then_do (probe_run env [''lsusb''] 10) (\<lambda>(ok, lsusb).
     then_do (probe_run env [''lspci''] 10) (\<lambda>(ok2, lspci).
       let has_bt_hardware = (contains ''Bluetooth'' lsusb \<or> contains ''Bluetooth'' lspci) in
       then_do (if has_bt_hardware then Inr False
                else if \<not> exists_path env ''/sys/class/bluetooth'' then Inr True
                else then_do (iterdir env ''/sys/class/bluetooth'') (\<lambda>entries. Inr (entries = [])))
         (\<lambda>absent.
           if absent then
             Inr \<lparr>name = ''Bluetooth'', status = SKIP, message = ''No Bluetooth hardware detected'',
                  details = [], fix_available = False, fix_command = []\<rparr>
           else
             then_do (probe_run env [''systemctl'', ''is-active'', ''bluetooth''] 10)
               (\<lambda>(ok3, bt_status).
                 if \<not> ok3 \<or> contains ''inactive'' bt_status then
                   Inr \<lparr>name = ''Bluetooth'', status = WARN,
                        message = ''Bluetooth service not running'',
                        details = [], fix_available = True,
                        fix_command = ''systemctl enable --now bluetooth''\<rparr>
                 else
                   then_do (probe_run env [''rfkill'', ''list'', ''bluetooth''] 10)
                     (\<lambda>(ok4, rfkill).
                       if contains ''Soft blocked: yes'' rfkill
                          \<or> contains ''Hard blocked: yes'' rfkill then
                         Inr \<lparr>name = ''Bluetooth'', status = WARN,
                              message = ''Bluetooth is blocked'',
                              details = [], fix_available = True,
                              fix_command = ''rfkill unblock bluetooth''\<rparr>
                       else
                         Inr \<lparr>name = ''Bluetooth'', status = PASS, message = ''Bluetooth active'',
                              details = [], fix_available = False, fix_command = []\<rparr>)))))"

definition check_usb :: "probe_env \<Rightarrow> check" where
  "check_usb env =
     then_do (probe_run env [''lsusb''] 10) (\<lambda>(ok, output).
       if \<not> ok then
         Inr \<lparr>name = ''USB Controllers'', status = SKIP, message = ''Unable to query USB devices'',
              details = [], fix_available = False, fix_command = []\<rparr>
       else
         let device_count = length (filter (\<lambda>l. strip l \<noteq> []) (split_char (CHR 0x0A) output)) in
         then_do (probe_run env [''lspci'', ''-v''] 10) (\<lambda>(ok1, lspci).
           let has_usb3 = (contains ''xHCI'' lspci \<or> contains ''USB 3'' lspci) in
           Inr \<lparr>name = ''USB Controllers'', status = PASS,
                message = str_nat device_count @ '' device(s)''
                          @ (if has_usb3 then '', USB 3.0'' else []),
                details = [], fix_available = False, fix_command = []\<rparr>))"

definition check_ethernet :: "regex \<Rightarrow> probe_env \<Rightarrow> check" where
  "check_ethernet R env =
     then_do (probe_run env [''ip'', ''link'', ''show''] 10) (\<lambda>(ok, output).
       let eth_interfaces =
             (if ok then interfaces_of R [''eth'', ''enp'', ''eno''] (split_char (CHR 0x0A) output)
              else [])
       in
       if eth_interfaces = [] then
         Inr \<lparr>name = ''Network (Ethernet)'', status = SKIP,
              message = ''No ethernet interface detected'',
              details = [], fix_available = False, fix_command = []\<rparr>
       else
         let interface = hd eth_interfaces in
         then_do (driver_of env interface) (\<lambda>driver.
         then_do (probe_run env [''cat'', ''/sys/class/net/'' @ interface @ ''/carrier''] 10)
           (\<lambda>(ok1, carrier).
             let is_connected = (ok1 \<and> strip carrier = ''1'');
                 status_msg = (if is_connected then ''connected'' else ''no link'')
             in
             Inr \<lparr>name = ''Network (Ethernet)'', status = PASS,
                  message = driver @ '' ('' @ interface @ ''): '' @ status_msg,
                  details = [], fix_available = False, fix_command = []\<rparr>)))"

definition check_webcam :: "regex \<Rightarrow> probe_env \<Rightarrow> check" where
  "check_webcam R env =
     then_do (glob env ''/dev'' ''video*'') (\<lambda>video_devices.
       if video_devices = [] then
         Inr \<lparr>name = ''Webcam'', status = SKIP, message = ''No video devices found'',
              details = [], fix_available = False, fix_command = []\<rparr>
       else
         then_do (probe_run env [''v4l2-ctl'', ''--list-devices''] 10) (\<lambda>(ok, output).
           if ok \<and> strip output \<noteq> [] then
             let cameras = length (re_findall R pat_video_device [] output) in
             Inr \<lparr>name = ''Webcam'', status = PASS,
                  message = str_nat cameras @ '' video device(s) found'',
                  details = [], fix_available = False, fix_command = []\<rparr>
           else
             Inr \<lparr>name = ''Webcam'', status = PASS,
                  message = str_nat (length video_devices) @ '' video device(s)'',
                  details = [], fix_available = False, fix_command = []\<rparr>))"

definition check_firmware :: "probe_env \<Rightarrow> check" where
  "check_firmware env =
     then_do (probe_run env [''which'', ''fwupdmgr''] 10) (\<lambda>(ok, _).
       if \<not> ok then
         Inr \<lparr>name = ''Firmware Updates'', status = WARN, message = ''fwupd not installed'',
              details = [], fix_available = True, fix_command = ''dnf install fwupd''\<rparr>
       else
         then_do (probe_run env [''fwupdmgr'', ''get-updates'', ''--json''] 30) (\<lambda>(ok1, output).
           if contains ''No upgrades'' output \<or> contains ''No updates'' output then
             Inr \<lparr>name = ''Firmware Updates'', status = PASS, message = ''Firmware up to date'',
                  details = [], fix_available = False, fix_command = []\<rparr>
           else if ok1 then
             Inr \<lparr>name = ''Firmware Updates'', status = WARN,
                  message = ''Firmware updates available'',
                  details = [], fix_available = True, fix_command = ''fwupdmgr update''\<rparr>
           else
             Inr \<lparr>name = ''Firmware Updates'', status = PASS,
                  message = ''Unable to check updates'',
                  details = [], fix_available = False, fix_command = []\<rparr>))"

definition check_kernel_modules :: "regex \<Rightarrow> probe_env \<Rightarrow> check" where
  "check_kernel_modules R env =
     then_do (probe_run env [''dmesg''] 10) (\<lambda>(ok, output).
       if \<not> ok then
         Inr \<lparr>name = ''Kernel Modules'', status = SKIP, message = ''Unable to read dmesg'',
              details = [], fix_available = False, fix_command = []\<rparr>
       else
         let missing_firmware = re_findall R pat_missing_firmware [] output;
             failed_modules = re_findall R pat_failed_module [] output;
             issues = length (remdups missing_firmware) + length (remdups failed_modules)
         in
         if issues > 5 then
           Inr \<lparr>name = ''Kernel Modules'', status = WARN,
                message = str_nat issues @ '' firmware/module issue(s)'',
                details = ''Check dmesg for details'',
                fix_available = True, fix_command = ''dnf install linux-firmware''\<rparr>
         else if issues > 0 then
           Inr \<lparr>name = ''Kernel Modules'', status = PASS,
                message = str_nat issues @ '' minor issue(s)'',
                details = [], fix_available = False, fix_command = []\<rparr>
         else
           Inr \<lparr>name = ''Kernel Modules'', status = PASS, message = ''No module issues detected'',
                details = [], fix_available = False, fix_command = []\<rparr>)"

definition check_hw_acceleration :: "probe_env \<Rightarrow> check" where
  "check_hw_acceleration env =
     then_do (probe_run env [''vainfo''] 10) (\<lambda>(ok, vainfo).
     then_do (probe_run env [''vdpauinfo''] 10) (\<lambda>(ok1, vdpau).
       let has_vaapi = (ok \<and> contains ''VAProfile'' vainfo);
           has_vdpau = (ok1 \<and> contains ''VDPAU'' vdpau)
       in
       if has_vaapi \<and> has_vdpau then
         Inr \<lparr>name = ''Hardware Acceleration'', status = PASS,
              message = ''VA-API and VDPAU available'',
              details = [], fix_available = False, fix_command = []\<rparr>
       else if has_vaapi then
         Inr \<lparr>name = ''Hardware Acceleration'', status = PASS, message = ''VA-API available'',
              details = [], fix_available = False, fix_command = []\<rparr>
       else if has_vdpau then
         Inr \<lparr>name = ''Hardware Acceleration'', status = PASS, message = ''VDPAU available'',
              details = [], fix_available = False, fix_command = []\<rparr>
       else
         Inr \<lparr>name = ''Hardware Acceleration'', status = WARN,
              message = ''No hardware acceleration detected'',
              details = [], fix_available = True,
              fix_command = ''dnf install libva-utils vdpauinfo mesa-va-drivers''\<rparr>))"

definition driver_checks :: "regex \<Rightarrow> probe_env \<Rightarrow> (string \<times> check) list" where
  "driver_checks R env =
     [(''GPU Driver'', check_gpu_driver R env),
      (''WiFi Driver'', check_wifi_driver R env),
      (''Audio Driver'', check_audio_driver R env),
      (''Bluetooth'', check_bluetooth env),
      (''USB Controllers'', check_usb env),
      (''Network (Ethernet)'', check_ethernet R env),
      (''Webcam'', check_webcam R env),
      (''Firmware Updates'', check_firmware env),
      (''Kernel Modules'', check_kernel_modules R env),
      (''Hardware Acceleration'', check_hw_acceleration env)]"

definition DriverChecker_run_all_checks ::
  "regex \<Rightarrow> probe_env \<Rightarrow> Checker \<Rightarrow> (pyexc + CheckCategory) \<times> Checker" where
  "DriverChecker_run_all_checks R env self =
     run_all_checks ''Driver Check'' StatusIcon_DRIVER (driver_checks R env) self"

subsection \<open>\<^verbatim>\<open>SecurityChecker\<close> (\<^verbatim>\<open>checks/security.py\<close>)\<close>

definition StatusIcon_SECURITY :: string where
  "StatusIcon_SECURITY =
     ''[bold red]'' @ [CHR 0xF0, CHR 0x9F, CHR 0x9B, CHR 0xA1, CHR 0xEF, CHR 0xB8, CHR 0x8F] @ ''[/]''"

definition pat_permit_root_login :: string where
  "pat_permit_root_login = ''^'' @ bs @ ''s*PermitRootLogin'' @ bs @ ''s+yes''"

definition pat_permit_empty_passwords :: string where
  "pat_permit_empty_passwords = ''^'' @ bs @ ''s*PermitEmptyPasswords'' @ bs @ ''s+yes''"

definition pat_minlen :: string where
  "pat_minlen = ''^'' @ bs @ ''s*minlen'' @ bs @ ''s*='' @ bs @ ''s*('' @ bs @ ''d+)''"

definition check_firewall :: "probe_env \<Rightarrow> check" where
  "check_firewall env =
     then_do (probe_run env [''systemctl'', ''is-active'', ''firewalld''] 10) (\<lambda>(ok, output).
       if \<not> ok \<or> contains ''inactive'' output then
         Inr \<lparr>name = ''Firewall (firewalld)'', status = FAIL,
              message = ''Firewall is not running'',
              details = ''Your system is not protected by a firewall'',
              fix_available = True, fix_command = ''systemctl enable --now firewalld''\<rparr>
       else
         then_do (probe_run env [''firewall-cmd'', ''--get-default-zone''] 10) (\<lambda>(ok1, zone0).
         then_do (probe_run env [''firewall-cmd'', ''--list-services''] 10) (\<lambda>(ok2, services).
           let zone = (if ok1 then strip zone0 else ''unknown'');
               service_count = (if ok2 then length (split_ws services) else 0)
           in
           Inr \<lparr>name = ''Firewall (firewalld)'', status = PASS,
                message = ''Active (zone: '' @ zone @ '')'',
                details = str_nat service_count @ '' allowed services'',
                fix_available = False, fix_command = []\<rparr>)))"

definition check_selinux :: "probe_env \<Rightarrow> check" where
  "check_selinux env =
     then_do (probe_run env [''getenforce''] 10) (\<lambda>(ok, output).
       if \<not> ok then
         Inr \<lparr>name = ''SELinux Status'', status = WARN, message = ''Unable to check SELinux'',
              details = [], fix_available = False, fix_command = []\<rparr>
       else
         let mode = lower (strip output) in
         if mode = ''enforcing'' then
           Inr \<lparr>name = ''SELinux Status'', status = PASS, message = ''SELinux is enforcing'',
                details = [], fix_available = False, fix_command = []\<rparr>
         else if mode = ''permissive'' then
           Inr \<lparr>name = ''SELinux Status'', status = WARN, message = ''SELinux is permissive'',
                details = ''Consider setting to enforcing mode'',
                fix_available = True,
                fix_command = ''setenforce 1 && sed -i 's/SELINUX=permissive/SELINUX=enforcing/' /etc/selinux/config''\<rparr>
         else
           Inr \<lparr>name = ''SELinux Status'', status = FAIL, message = ''SELinux is disabled'',
                details = ''Highly recommended to enable SELinux'',
                fix_available = True,
                fix_command = ''sed -i 's/SELINUX=disabled/SELINUX=enforcing/' /etc/selinux/config && reboot''\<rparr>)"

text \<open>
  \<^verbatim>\<open>check_ssh_config\<close>: the two searches whose branch is \<^verbatim>\<open>pass\<close> are left out.
\<close>

definition check_ssh_config :: "regex \<Rightarrow> probe_env \<Rightarrow> check" where
  "check_ssh_config R env =
     (if \<not> exists_path env ''/etc/ssh/sshd_config'' then
        Inr \<lparr>name = ''SSH Configuration'', status = SKIP, message = ''SSH server not installed'',
             details = [], fix_available = False, fix_command = []\<rparr>
      else
        then_do (read_text env ''/etc/ssh/sshd_config'') (\<lambda>config.
          let issues =
                (if re_search R pat_permit_root_login [''MULTILINE'', ''IGNORECASE''] config \<noteq> None
                 then [''Root login enabled''] else [])
                @ (if re_search R pat_permit_empty_passwords [''MULTILINE'', ''IGNORECASE''] config
                      \<noteq> None
                   then [''Empty passwords allowed''] else [])
          in
          then_do (probe_run env [''systemctl'', ''is-active'', ''sshd''] 10) (\<lambda>(ok, _).
            if issues \<noteq> [] then
              Inr \<lparr>name = ''SSH Configuration'', status = WARN,
                   message = str_nat (length issues) @ '' security issue(s)'',
                   details = join newline issues,
                   fix_available = True,
                   fix_command = ''sed -i 's/PermitRootLogin yes/PermitRootLogin no/' /etc/ssh/sshd_config && systemctl restart sshd''\<rparr>
            else if ok then
              Inr \<lparr>name = ''SSH Configuration'', status = PASS,
                   message = ''SSH configured securely'',
                   details = [], fix_available = False, fix_command = []\<rparr>
            else
              Inr \<lparr>name = ''SSH Configuration'', status = PASS,
                   message = ''SSH not running (secure)'',
                   details = [], fix_available = False, fix_command = []\<rparr>)))"

fun listening_ports :: "string list \<Rightarrow> string list" where
  "listening_ports [] = []"
| "listening_ports (line # lines) =
     (if contains ''LISTEN'' line then
        (let parts = split_ws line in
         if length parts \<ge> 5 then
           (let addr = parts ! 4 in
            if contains '':'' addr then after_last (CHR '':'') addr # listening_ports lines
            else listening_ports lines)
         else listening_ports lines)
      else listening_ports lines)"

definition check_open_ports :: "probe_env \<Rightarrow> check" where
  "check_open_ports env =
     then_do (probe_run env [''ss'', ''-tuln''] 10) (\<lambda>(ok, output).
       if \<not> ok then
         Inr \<lparr>name = ''Open Ports'', status = SKIP, message = ''Unable to check ports'',
              details = [], fix_available = False, fix_command = []\<rparr>
       else
         let listening = listening_ports (split_char (CHR 0x0A) output);
             external_ports = filter (\<lambda>p. p \<notin> {''22'', ''631'', ''5353''}) listening
         in
         if length external_ports > 5 then
           Inr \<lparr>name = ''Open Ports'', status = WARN,
                message = str_nat (length listening) @ '' ports listening'',
                details = ''External: '' @ join '', '' (take 5 external_ports) @ ''...'',
                fix_available = False, fix_command = []\<rparr>
         else
           Inr \<lparr>name = ''Open Ports'', status = PASS,
                message = str_nat (length listening) @ '' ports listening'',
                details = [], fix_available = False, fix_command = []\<rparr>)"

definition check_failed_logins :: "probe_env \<Rightarrow> check" where
  "check_failed_logins env =
     then_do (probe_run env
                [''journalctl'', ''-u'', ''sshd'', ''--since'', ''24 hours ago'', ''--no-pager'', ''-q'']
                15) (\<lambda>(ok0, output0).
     then_do (if \<not> ok0 then probe_run env [''lastb'', ''-n'', ''100''] 10 else Inr (ok0, output0))
       (\<lambda>(ok, output).
         if \<not> ok then
           Inr \<lparr>name = ''Failed Login Attempts'', status = SKIP,
                message = ''Unable to check login attempts'',
                details = [], fix_available = False, fix_command = []\<rparr>
         else
           let failed_count = count_sub ''failed'' (lower output)
                              + count_sub ''authentication failure'' (lower output)
           in
           if failed_count > 50 then
             Inr \<lparr>name = ''Failed Login Attempts'', status = WARN,
                  message = str_nat failed_count @ ''+ failed attempts (24h)'',
                  details = ''Consider installing fail2ban'',
                  fix_available = True,
                  fix_command = ''dnf install fail2ban && systemctl enable --now fail2ban''\<rparr>
           else if failed_count > 0 then
             Inr \<lparr>name = ''Failed Login Attempts'', status = PASS,
                  message = str_nat failed_count @ '' failed attempt(s) (24h)'',
                  details = [], fix_available = False, fix_command = []\<rparr>
           else
             Inr \<lparr>name = ''Failed Login Attempts'', status = PASS,
                  message = ''No failed attempts (24h)'',
                  details = [], fix_available = False, fix_command = []\<rparr>))"

text \<open>
  \<^verbatim>\<open>check_root_account\<close>: the lines of the file as iterating over it gives them, each
  with its newline; the first line that starts with \<^verbatim>\<open>root:\<close> decides.
\<close>

definition file_lines :: "string \<Rightarrow> string list" where
  "file_lines s =
     (let parts = split_char (CHR 0x0A) s in
      map (\<lambda>l. l @ newline) (butlast parts) @ (if last parts = [] then [] else [last parts]))"

fun root_line :: "string list \<Rightarrow> CheckResult" where
  "root_line [] =
     \<lparr>name = ''Root Account'', status = PASS, message = ''Root account secure'',
      details = [], fix_available = False, fix_command = []\<rparr>"
| "root_line (line # lines) =
     (if startswith line ''root:'' then
        (let parts = split_char (CHR '':'') line;
             password_hash = (if length parts > 1 then parts ! 1 else [])
         in
         if password_hash \<in> {[], ''*'', ''!!'', ''!''} then
           \<lparr>name = ''Root Account'', status = PASS, message = ''Root login disabled'',
            details = [], fix_available = False, fix_command = []\<rparr>
         else
           \<lparr>name = ''Root Account'', status = WARN, message = ''Root has password set'',
            details = ''Consider using sudo instead of root login'',
            fix_available = False, fix_command = []\<rparr>)
      else root_line lines)"

definition check_root_account :: "probe_env \<Rightarrow> check" where
  "check_root_account env =
     (if \<not> exists_path env ''/etc/shadow'' \<or> \<not> access_r env ''/etc/shadow'' then
        Inr \<lparr>name = ''Root Account'', status = SKIP, message = ''Cannot read shadow file'',
             details = [], fix_available = False, fix_command = []\<rparr>
      else
        (case read_text env ''/etc/shadow'' of
           Inl (PermissionError _) \<Rightarrow>
             Inr \<lparr>name = ''Root Account'', status = SKIP, message = ''Cannot check root account'',
                  details = [], fix_available = False, fix_command = []\<rparr>
         | Inl e \<Rightarrow> Inl e
         | Inr content \<Rightarrow> Inr (root_line (file_lines content))))"

text \<open>
  \<^verbatim>\<open>check_sudo\<close>: reading a file of \<^verbatim>\<open>/etc/sudoers.d\<close> is under a bare
  \<^verbatim>\<open>except\<close>, which drops whatever is raised.
\<close>

fun sudoers_d_nopasswd :: "probe_env \<Rightarrow> string list \<Rightarrow> bool \<Rightarrow> bool" where
  "sudoers_d_nopasswd env [] has_nopasswd = has_nopasswd"
| "sudoers_d_nopasswd env (f # fs) has_nopasswd =
     (if is_file env f \<and> access_r env f then
        (case read_text env f of
           Inr content \<Rightarrow>
             sudoers_d_nopasswd env fs (if contains ''NOPASSWD'' content then True else has_nopasswd)
         | Inl _ \<Rightarrow> sudoers_d_nopasswd env fs has_nopasswd)
      else sudoers_d_nopasswd env fs has_nopasswd)"

definition check_sudo :: "probe_env \<Rightarrow> check" where
  "check_sudo env =
     then_do (probe_run env [''groups''] 10) (\<lambda>(ok, groups).
       if \<not> contains ''wheel'' groups then
         Inr \<lparr>name = ''Sudo Configuration'', status = WARN,
              message = ''Current user not in wheel group'',
              details = ''May not have sudo access'',
              fix_available = False, fix_command = []\<rparr>
       else
         then_do (if exists_path env ''/etc/sudoers'' \<and> access_r env ''/etc/sudoers''
                  then then_do (read_text env ''/etc/sudoers'')
                         (\<lambda>content. Inr (contains ''NOPASSWD'' content))
                  else Inr False) (\<lambda>has0.
         then_do (if exists_path env ''/etc/sudoers.d''
                  then then_do (iterdir env ''/etc/sudoers.d'')
                         (\<lambda>files. Inr (sudoers_d_nopasswd env files has0))
                  else Inr has0) (\<lambda>has_nopasswd.
           if has_nopasswd then
             Inr \<lparr>name = ''Sudo Configuration'', status = WARN,
                  message = ''NOPASSWD entries found'',
                  details = ''Some commands don't require password'',
                  fix_available = False, fix_command = []\<rparr>
           else
             Inr \<lparr>name = ''Sudo Configuration'', status = PASS,
                  message = ''Sudo configured properly'',
                  details = [], fix_available = False, fix_command = []\<rparr>)))"

definition check_auto_updates :: "probe_env \<Rightarrow> check" where
  "check_auto_updates env =
     then_do (probe_run env [''systemctl'', ''is-enabled'', ''dnf-automatic.timer''] 10)
       (\<lambda>(ok, output).
         if ok \<and> contains ''enabled'' output then
           Inr \<lparr>name = ''Automatic Updates'', status = PASS, message = ''dnf-automatic enabled'',
                details = [], fix_available = False, fix_command = []\<rparr>
         else
           then_do (probe_run env [''systemctl'', ''is-enabled'', ''packagekit-offline-update''] 10)
             (\<lambda>(ok1, output1).
               if ok1 \<and> contains ''enabled'' output1 then
                 Inr \<lparr>name = ''Automatic Updates'', status = PASS,
                      message = ''PackageKit updates enabled'',
                      details = [], fix_available = False, fix_command = []\<rparr>
               else
                 Inr \<lparr>name = ''Automatic Updates'', status = WARN,
                      message = ''Auto-updates not configured'',
                      details = ''Consider enabling automatic security updates'',
                      fix_available = True,
                      fix_command = ''dnf install dnf-automatic && systemctl enable --now dnf-automatic.timer''\<rparr>))"

definition check_password_policy :: "regex \<Rightarrow> probe_env \<Rightarrow> check" where
  "check_password_policy R env =
     (if \<not> exists_path env ''/etc/security/pwquality.conf'' then
        Inr \<lparr>name = ''Password Policy'', status = WARN, message = ''pwquality not configured'',
             details = [], fix_available = True, fix_command = ''dnf install libpwquality''\<rparr>
      else
        then_do (read_text env ''/etc/security/pwquality.conf'') (\<lambda>config.
          let minlen = (case re_search R pat_minlen [''MULTILINE''] config of
                          Some (g # _) \<Rightarrow> int_of_digits g
                        | _ \<Rightarrow> 8)
          in
          if minlen < 8 then
            Inr \<lparr>name = ''Password Policy'', status = WARN,
                 message = ''Minimum password length: '' @ str_nat minlen,
                 details = ''Recommended: at least 12 characters'',
                 fix_available = False, fix_command = []\<rparr>
          else
            Inr \<lparr>name = ''Password Policy'', status = PASS,
                 message = ''Password policy OK (min: '' @ str_nat minlen @ '')'',
                 details = [], fix_available = False, fix_command = []\<rparr>))"

text \<open>\<^verbatim>\<open>check_sensitive_files\<close>: the modes are 0o644, 0o000, 0o000 and 0o440.\<close>

fun permission_issues :: "probe_env \<Rightarrow> (string \<times> nat) list \<Rightarrow> string list \<Rightarrow> pyexc + string list" where
  "permission_issues env [] issues = Inr issues"
| "permission_issues env ((filepath, expected_mode) # files) issues =
     (if exists_path env filepath then
        then_do (stat_mode env filepath) (\<lambda>st_mode.
          let mode = st_mode mod 512 in
          if mode > expected_mode
          then permission_issues env files (issues @ [filepath @ '': '' @ oct mode])
          else permission_issues env files issues)
      else permission_issues env files issues)"

definition check_sensitive_files :: "probe_env \<Rightarrow> check" where
  "check_sensitive_files env =
     then_do (permission_issues env
                [(''/etc/passwd'', 420), (''/etc/shadow'', 0), (''/etc/gshadow'', 0),
                 (''/etc/sudoers'', 288)] [])
       (\<lambda>issues.
         if issues \<noteq> [] then
           Inr \<lparr>name = ''File Permissions'', status = WARN,
                message = str_nat (length issues) @ '' permission issue(s)'',
                details = join newline issues,
                fix_available = False, fix_command = []\<rparr>
         else
           Inr \<lparr>name = ''File Permissions'', status = PASS,
                message = ''Sensitive files secured'',
                details = [], fix_available = False, fix_command = []\<rparr>)"

fun sysctl_issues :: "probe_env \<Rightarrow> (string \<times> string \<times> string) list \<Rightarrow> string list \<Rightarrow> string list" where
  "sysctl_issues env [] issues = issues"
| "sysctl_issues env ((path, expected, issue_msg) # rest) issues =
     (if exists_path env path then
        (case read_text env path of
           Inr text \<Rightarrow>
             if strip text \<noteq> expected then sysctl_issues env rest (issues @ [issue_msg])
             else sysctl_issues env rest issues
         | Inl _ \<Rightarrow> sysctl_issues env rest issues)
      else sysctl_issues env rest issues)"

definition check_kernel_security :: "probe_env \<Rightarrow> check" where
  "check_kernel_security env =
     (let issues = sysctl_issues env
            [(''/proc/sys/net/ipv4/ip_forward'', ''0'', ''IP forwarding enabled''),
             (''/proc/sys/net/ipv4/conf/all/rp_filter'', ''1'', ''Reverse path filtering disabled''),
             (''/proc/sys/kernel/randomize_va_space'', ''2'', ''ASLR not fully enabled'')] []
      in
      if issues \<noteq> [] then
        Inr \<lparr>name = ''Kernel Security'', status = WARN,
             message = str_nat (length issues) @ '' setting(s) suboptimal'',
             details = join newline issues,
             fix_available = False, fix_command = []\<rparr>
      else
        Inr \<lparr>name = ''Kernel Security'', status = PASS, message = ''Kernel security OK'',
             details = [], fix_available = False, fix_command = []\<rparr>)"

definition check_antivirus :: "probe_env \<Rightarrow> check" where
  "check_antivirus env =
     then_do (probe_run env [''which'', ''clamscan''] 10) (\<lambda>(ok, _).
       if \<not> ok then
         Inr \<lparr>name = ''Antivirus (ClamAV)'', status = SKIP, message = ''ClamAV not installed'',
              details = ''Optional: install for malware scanning'',
              fix_available = True, fix_command = ''dnf install clamav clamav-update''\<rparr>
       else
         then_do (probe_run env [''systemctl'', ''is-active'', ''clamav-freshclam''] 10)
           (\<lambda>(ok1, output).
             if ok1 \<and> contains ''active'' output then
               Inr \<lparr>name = ''Antivirus (ClamAV)'', status = PASS,
                    message = ''ClamAV installed and updating'',
                    details = [], fix_available = False, fix_command = []\<rparr>
             else
               Inr \<lparr>name = ''Antivirus (ClamAV)'', status = WARN,
                    message = ''ClamAV installed, updates disabled'',
                    details = [], fix_available = True,
                    fix_command = ''systemctl enable --now clamav-freshclam''\<rparr>))"

definition security_checks :: "regex \<Rightarrow> probe_env \<Rightarrow> (string \<times> check) list" where
  "security_checks R env =
     [(''Firewall (firewalld)'', check_firewall env),
      (''SELinux Status'', check_selinux env),
      (''SSH Configuration'', check_ssh_config R env),
      (''Open Ports'', check_open_ports env),
      (''Failed Login Attempts'', check_failed_logins env),
      (''Root Account'', check_root_account env),
      (''Sudo Configuration'', check_sudo env),
      (''Automatic Updates'', check_auto_updates env),
      (''Password Policy'', check_password_policy R env),
      (''File Permissions'', check_sensitive_files env),
      (''Kernel Security'', check_kernel_security env),
      (''Antivirus (ClamAV)'', check_antivirus env)]"

definition SecurityChecker_run_all_checks ::
  "regex \<Rightarrow> probe_env \<Rightarrow> Checker \<Rightarrow> (pyexc + CheckCategory) \<times> Checker" where
  "SecurityChecker_run_all_checks R env self =
     run_all_checks ''Security Check'' StatusIcon_SECURITY (security_checks R env) self"

subsection \<open>\<^verbatim>\<open>DesktopChecker\<close> (\<^verbatim>\<open>checks/desktop.py\<close>)\<close>

text \<open>
  The desktop checker reads \<^verbatim>\<open>XDG_CURRENT_DESKTOP\<close> and \<^verbatim>\<open>XDG_SESSION_TYPE\<close> once, in
  its constructor, and keeps them in lower case: they are the record \<open>DesktopChecker\<close>,
  beside the list \<^verbatim>\<open>self.results\<close>, which is a \<open>Checker\<close> as for the other three.
  \<^verbatim>\<open>os.environ.get(k, d)\<close> is \<open>getenv\<close>.
\<close>

definition StatusIcon_DESKTOP :: string where
  "StatusIcon_DESKTOP =
     ''[bold blue]'' @ [CHR 0xF0, CHR 0x9F, CHR 0x96, CHR 0xA5, CHR 0xEF, CHR 0xB8, CHR 0x8F] @ ''[/]''"

definition getenv :: "probe_env \<Rightarrow> string \<Rightarrow> string \<Rightarrow> string" where
  "getenv env k d = (case environ env k of None \<Rightarrow> d | Some v \<Rightarrow> v)"

record DesktopChecker =
  desktop_session :: string
  session_type :: string

definition DesktopChecker_init :: "probe_env \<Rightarrow> DesktopChecker" where
  "DesktopChecker_init env =
     \<lparr>desktop_session = lower (getenv env ''XDG_CURRENT_DESKTOP'' []),
      session_type = lower (getenv env ''XDG_SESSION_TYPE'' [])\<rparr>"

definition pat_version :: string where
  "pat_version = ''('' @ bs @ ''d+'' @ bs @ ''.'' @ bs @ ''d+)''"

definition pat_resolution :: string where
  "pat_resolution =
     ''('' @ bs @ ''d{3,4}x'' @ bs @ ''d{3,4})'' @ bs @ ''s+'' @ bs @ ''d+'' @ bs @ ''.'' @ bs @ ''d+''
     @ bs @ ''*''"

definition pat_connected :: string where
  "pat_connected = ''('' @ bs @ ''w+) connected''"

definition de_map :: "(string \<times> string) list" where
  "de_map =
     [(''gnome'', ''GNOME''), (''kde'', ''KDE Plasma''), (''plasma'', ''KDE Plasma''),
      (''xfce'', ''XFCE''), (''cinnamon'', ''Cinnamon''), (''mate'', ''MATE''),
      (''lxde'', ''LXDE''), (''lxqt'', ''LXQt''), (''budgie'', ''Budgie''),
      (''pantheon'', ''Pantheon''), (''sway'', ''Sway''), (''i3'', ''i3''),
      (''hyprland'', ''Hyprland'')]"

fun lookup_de :: "(string \<times> string) list \<Rightarrow> string \<Rightarrow> string" where
  "lookup_de [] desktop = ''Unknown''"
| "lookup_de ((key, de) # rest) desktop =
     (if contains key desktop then de else lookup_de rest desktop)"

definition check_desktop_environment :: "regex \<Rightarrow> probe_env \<Rightarrow> DesktopChecker \<Rightarrow> check" where
  "check_desktop_environment R env self =
     (let desktop = desktop_session self;
          de_name0 = lookup_de de_map desktop;
          de_name = (if de_name0 = ''Unknown'' then
                       (if getenv env ''GNOME_DESKTOP_SESSION_ID'' [] \<noteq> [] then ''GNOME''
                        else if getenv env ''KDE_FULL_SESSION'' [] \<noteq> [] then ''KDE Plasma''
                        else de_name0)
                     else de_name0)
      in
      if de_name = ''Unknown'' then
        Inr \<lparr>name = ''Desktop Environment'', status = WARN, message = ''Unable to detect DE'',
             details = ''Running in TTY or unknown DE'',
             fix_available = False, fix_command = []\<rparr>
      else
        then_do
          (if contains ''gnome'' (lower de_name) then
             then_do (probe_run env [''gnome-shell'', ''--version''] 10) (\<lambda>(ok, output).
               Inr (if ok then replace ''GNOME Shell '' [] (strip output) else []))
           else if contains ''kde'' (lower de_name) \<or> contains ''plasma'' (lower de_name) then
             then_do (probe_run env [''plasmashell'', ''--version''] 10) (\<lambda>(ok, output).
               Inr (if ok then
                      (case re_search R pat_version [] output of
                         Some (g # _) \<Rightarrow> g
                       | _ \<Rightarrow> [])
                    else []))
           else Inr [])
          (\<lambda>version.
            Inr \<lparr>name = ''Desktop Environment'', status = PASS,
                 message = de_name @ (if version \<noteq> [] then '' '' @ version else []),
                 details = [], fix_available = False, fix_command = []\<rparr>))"

definition check_display_server :: "probe_env \<Rightarrow> DesktopChecker \<Rightarrow> check" where
  "check_display_server env self =
     (if session_type self = ''wayland'' then
        Inr \<lparr>name = ''Display Server'', status = PASS,
             message = ''Wayland ('' @ getenv env ''WAYLAND_DISPLAY'' [] @ '')'',
             details = [], fix_available = False, fix_command = []\<rparr>
      else if session_type self = ''x11'' then
        Inr \<lparr>name = ''Display Server'', status = PASS,
             message = ''X11 ('' @ getenv env ''DISPLAY'' '':0'' @ '')'',
             details = [], fix_available = False, fix_command = []\<rparr>
      else if session_type self = ''tty'' then
        Inr \<lparr>name = ''Display Server'', status = SKIP, message = ''TTY session (no GUI)'',
             details = [], fix_available = False, fix_command = []\<rparr>
      else
        Inr \<lparr>name = ''Display Server'', status = WARN, message = ''Unknown display server'',
             details = [], fix_available = False, fix_command = []\<rparr>)"

fun find_compositor :: "probe_env \<Rightarrow> (string \<times> string list) list \<Rightarrow> check" where
  "find_compositor env [] =
     Inr \<lparr>name = ''Compositor'', status = PASS, message = ''Composite extension enabled'',
          details = [], fix_available = False, fix_command = []\<rparr>"
| "find_compositor env ((nm, cmd) # rest) =
     then_do (probe_run env cmd 10) (\<lambda>(ok, _).
       if ok then
         Inr \<lparr>name = ''Compositor'', status = PASS, message = nm @ '' compositor active'',
              details = [], fix_available = False, fix_command = []\<rparr>
       else find_compositor env rest)"

definition check_compositor :: "probe_env \<Rightarrow> DesktopChecker \<Rightarrow> check" where
  "check_compositor env self =
     (if session_type self = ''wayland'' then
        Inr \<lparr>name = ''Compositor'', status = PASS,
             message = ''Wayland compositor ('' @ getenv env ''XDG_CURRENT_DESKTOP'' ''Unknown'' @ '')'',
             details = [], fix_available = False, fix_command = []\<rparr>
      else
        then_do (probe_run env [''xdpyinfo''] 10) (\<lambda>(ok, output).
          if \<not> ok then
            Inr \<lparr>name = ''Compositor'', status = SKIP, message = ''Cannot check compositor'',
                 details = [], fix_available = False, fix_command = []\<rparr>
          else if contains ''Composite'' output then
            find_compositor env
              [(''picom'', [''pgrep'', ''picom'']), (''compton'', [''pgrep'', ''compton'']),
               (''compiz'', [''pgrep'', ''compiz'']), (''kwin'', [''pgrep'', ''kwin'']),
               (''mutter'', [''pgrep'', ''mutter''])]
          else
            Inr \<lparr>name = ''Compositor'', status = WARN, message = ''No compositor detected'',
                 details = ''Desktop effects may not work properly'',
                 fix_available = False, fix_command = []\<rparr>))"

fun find_display_manager :: "probe_env \<Rightarrow> (string \<times> string) list \<Rightarrow> check" where
  "find_display_manager env [] =
     Inr \<lparr>name = ''Display Manager'', status = WARN, message = ''No display manager detected'',
          details = ''Using TTY login or startx'',
          fix_available = False, fix_command = []\<rparr>"
| "find_display_manager env ((service, nm) # rest) =
     then_do (probe_run env [''systemctl'', ''is-active'', service] 10) (\<lambda>(ok, output).
       if ok \<and> contains ''active'' output then
         Inr \<lparr>name = ''Display Manager'', status = PASS, message = nm,
              details = [], fix_available = False, fix_command = []\<rparr>
       else find_display_manager env rest)"

definition check_display_manager :: "probe_env \<Rightarrow> check" where
  "check_display_manager env =
     find_display_manager env
       [(''gdm'', ''GDM (GNOME)''), (''sddm'', ''SDDM (KDE)''), (''lightdm'', ''LightDM''),
        (''lxdm'', ''LXDM''), (''xdm'', ''XDM'')]"

text \<open>
  \<^verbatim>\<open>check_resolution\<close>: on Wayland one or two commands are run first and their results
  dropped; the verdict is read from \<^verbatim>\<open>xrandr --current\<close>.
\<close>

definition check_resolution :: "regex \<Rightarrow> probe_env \<Rightarrow> DesktopChecker \<Rightarrow> check" where
  "check_resolution R env self =
     then_do
       (if session_type self = ''wayland'' then
          then_do (probe_run env [''wlr-randr''] 10) (\<lambda>(ok, _).
            if \<not> ok then
              then_do (probe_run env
                         [''gsettings'', ''get'', ''org.gnome.desktop.interface'', ''scaling-factor'']
                         10) (\<lambda>_. Inr ())
            else Inr ())
        else Inr ())
       (\<lambda>_.
         then_do (probe_run env [''xrandr'', ''--current''] 10) (\<lambda>(ok, output).
           if \<not> ok then
             Inr \<lparr>name = ''Screen Resolution'', status = SKIP,
                  message = ''Cannot detect resolution'',
                  details = [], fix_available = False, fix_command = []\<rparr>
           else
             let resolutions = re_findall R pat_resolution [] output in
             if resolutions \<noteq> [] then
               Inr \<lparr>name = ''Screen Resolution'', status = PASS,
                    message = join '', '' resolutions,
                    details = [], fix_available = False, fix_command = []\<rparr>
             else
               let connected = re_findall R pat_connected [] output in
               if connected \<noteq> [] then
                 Inr \<lparr>name = ''Screen Resolution'', status = PASS,
                      message = str_nat (length connected) @ '' display(s) connected'',
                      details = [], fix_available = False, fix_command = []\<rparr>
               else
                 Inr \<lparr>name = ''Screen Resolution'', status = WARN,
                      message = ''No displays detected'',
                      details = [], fix_available = False, fix_command = []\<rparr>))"

definition theme_of :: "probe_env \<Rightarrow> string \<Rightarrow> string \<Rightarrow> pyexc + (string \<times> string) list" where
  "theme_of env label key =
     then_do (probe_run env [''gsettings'', ''get'', ''org.gnome.desktop.interface'', key] 10)
       (\<lambda>(ok, output).
         Inr (if ok then [(label, strip_chars [CHR 0x27] (strip output))] else []))"

definition check_themes :: "probe_env \<Rightarrow> check" where
  "check_themes env =
     then_do (theme_of env ''GTK'' ''gtk-theme'') (\<lambda>gtk.
     then_do (theme_of env ''Icons'' ''icon-theme'') (\<lambda>icons.
     then_do (theme_of env ''Cursor'' ''cursor-theme'') (\<lambda>cursor.
       let themes = gtk @ icons @ cursor in
       if themes \<noteq> [] then
         let theme_str = join '', '' (map (\<lambda>(k, v). k @ '': '' @ v) (take 2 themes)) in
         Inr \<lparr>name = ''Theme & Icons'', status = PASS,
              message = take_chars 50 theme_str @
                        (if len_chars theme_str > 50 then ''...'' else []),
              details = [], fix_available = False, fix_command = []\<rparr>
       else
         Inr \<lparr>name = ''Theme & Icons'', status = SKIP, message = ''Unable to detect themes'',
              details = [], fix_available = False, fix_command = []\<rparr>)))"

definition check_fonts :: "probe_env \<Rightarrow> check" where
  "check_fonts env =
     then_do (probe_run env [''fc-list''] 10) (\<lambda>(ok, output).
       if \<not> ok then
         Inr \<lparr>name = ''Fonts'', status = SKIP, message = ''fontconfig not available'',
              details = [], fix_available = False, fix_command = []\<rparr>
       else
         let font_count = length (split_char (CHR 0x0A) (strip output));
             found_fonts = filter (\<lambda>f. contains (lower f) (lower output))
                             [''DejaVu'', ''Liberation'', ''Noto'', ''Roboto'', ''Fira'']
         in
         if font_count < 50 then
           Inr \<lparr>name = ''Fonts'', status = WARN,
                message = ''Only '' @ str_nat font_count @ '' fonts installed'',
                details = ''Consider installing more font packages'',
                fix_available = True,
                fix_command = ''dnf install google-noto-fonts-common liberation-fonts dejavu-fonts-all''\<rparr>
         else
           Inr \<lparr>name = ''Fonts'', status = PASS,
                message = str_nat font_count @ '' fonts ('' @ join '', '' (take 3 found_fonts) @ '')'',
                details = [], fix_available = False, fix_command = []\<rparr>)"

definition check_gnome_extensions :: "probe_env \<Rightarrow> DesktopChecker \<Rightarrow> check" where
  "check_gnome_extensions env self =
     (if \<not> contains ''gnome'' (desktop_session self) then
        Inr \<lparr>name = ''GNOME Extensions'', status = SKIP, message = ''Not using GNOME'',
             details = [], fix_available = False, fix_command = []\<rparr>
      else
        then_do (probe_run env [''gnome-extensions'', ''list'', ''--enabled''] 10) (\<lambda>(ok, output).
          if \<not> ok then
            Inr \<lparr>name = ''GNOME Extensions'', status = SKIP,
                 message = ''gnome-extensions not available'',
                 details = [], fix_available = False, fix_command = []\<rparr>
          else
            let extensions = filter (\<lambda>e. e \<noteq> []) (split_char (CHR 0x0A) (strip output)) in
            if extensions = [] then
              Inr \<lparr>name = ''GNOME Extensions'', status = PASS, message = ''No extensions enabled'',
                   details = [], fix_available = False, fix_command = []\<rparr>
            else
              then_do (probe_run env [''gnome-extensions'', ''list'', ''--disabled''] 10)
                (\<lambda>(ok1, disabled).
                  let disabled_count =
                        length (filter (\<lambda>e. e \<noteq> []) (split_char (CHR 0x0A) (strip disabled)))
                  in
                  Inr \<lparr>name = ''GNOME Extensions'', status = PASS,
                       message = str_nat (length extensions) @ '' enabled, ''
                                 @ str_nat disabled_count @ '' disabled'',
                       details = [], fix_available = False, fix_command = []\<rparr>)))"

definition check_flatpak :: "probe_env \<Rightarrow> check" where
  "check_flatpak env =
     then_do (probe_run env [''which'', ''flatpak''] 10) (\<lambda>(ok, _).
       if \<not> ok then
         Inr \<lparr>name = ''Flatpak Apps'', status = WARN, message = ''Flatpak not installed'',
              details = [], fix_available = True,
              fix_command = ''dnf install flatpak && flatpak remote-add --if-not-exists flathub https://flathub.org/repo/flathub.flatpakrepo''\<rparr>
       else
         then_do (probe_run env [''flatpak'', ''list'', ''--app''] 10) (\<lambda>(ok1, output).
           if ok1 then
             let apps = filter (\<lambda>a. a \<noteq> []) (split_char (CHR 0x0A) (strip output));
                 app_count = length apps
             in
             then_do (probe_run env [''flatpak'', ''remotes''] 10) (\<lambda>(ok2, remotes).
               let has_flathub = contains ''flathub'' (lower remotes) in
               if \<not> has_flathub then
                 Inr \<lparr>name = ''Flatpak Apps'', status = WARN,
                      message = str_nat app_count @ '' app(s), Flathub not configured'',
                      details = [], fix_available = True,
                      fix_command = ''flatpak remote-add --if-not-exists flathub https://flathub.org/repo/flathub.flatpakrepo''\<rparr>
               else
                 Inr \<lparr>name = ''Flatpak Apps'', status = PASS,
                      message = str_nat app_count @ '' app(s) installed'',
                      details = [], fix_available = False, fix_command = []\<rparr>)
           else
             Inr \<lparr>name = ''Flatpak Apps'', status = PASS, message = ''Flatpak configured'',
                  details = [], fix_available = False, fix_command = []\<rparr>))"

fun installed_portals :: "probe_env \<Rightarrow> string list \<Rightarrow> string list \<Rightarrow> pyexc + string list" where
  "installed_portals env [] installed = Inr installed"
| "installed_portals env (pkg # pkgs) installed =
     then_do (probe_run env [''rpm'', ''-q'', pkg] 10) (\<lambda>(ok, _).
       if ok then
         installed_portals env pkgs
           (installed @ [replace ''xdg-desktop-portal'' ''core''
                           (replace ''xdg-desktop-portal-'' [] pkg)])
       else installed_portals env pkgs installed)"

definition check_portals :: "probe_env \<Rightarrow> check" where
  "check_portals env =
     then_do (installed_portals env
                [''xdg-desktop-portal'', ''xdg-desktop-portal-gtk'', ''xdg-desktop-portal-gnome'',
                 ''xdg-desktop-portal-kde''] [])
       (\<lambda>installed.
         if installed = [] then
           Inr \<lparr>name = ''Desktop Portals'', status = WARN, message = ''XDG portals not installed'',
                details = ''Flatpak apps may not work correctly'',
                fix_available = True,
                fix_command = ''dnf install xdg-desktop-portal xdg-desktop-portal-gtk''\<rparr>
         else
           then_do (probe_run env [''systemctl'', ''--user'', ''is-active'', ''xdg-desktop-portal''] 10)
             (\<lambda>(ok, output).
               if ok \<and> contains ''active'' output then
                 Inr \<lparr>name = ''Desktop Portals'', status = PASS,
                      message = ''Active ('' @ join '', '' (take 3 installed) @ '')'',
                      details = [], fix_available = False, fix_command = []\<rparr>
               else
                 Inr \<lparr>name = ''Desktop Portals'', status = WARN,
                      message = ''Portal service not running'',
                      details = [], fix_available = True,
                      fix_command = ''systemctl --user enable --now xdg-desktop-portal''\<rparr>))"

definition desktop_checks :: "regex \<Rightarrow> probe_env \<Rightarrow> DesktopChecker \<Rightarrow> (string \<times> check) list" where
  "desktop_checks R env self =
     [(''Desktop Environment'', check_desktop_environment R env self),
      (''Display Server'', check_display_server env self),
      (''Compositor'', check_compositor env self),
      (''Display Manager'', check_display_manager env),
      (''Screen Resolution'', check_resolution R env self),
      (''Theme & Icons'', check_themes env),
      (''Fonts'', check_fonts env),
      (''GNOME Extensions'', check_gnome_extensions env self),
      (''Flatpak Apps'', check_flatpak env),
      (''Desktop Portals'', check_portals env)]"

definition DesktopChecker_run_all_checks ::
  "regex \<Rightarrow> probe_env \<Rightarrow> DesktopChecker \<Rightarrow> Checker \<Rightarrow> (pyexc + CheckCategory) \<times> Checker" where
  "DesktopChecker_run_all_checks R env self checker =
     run_all_checks ''Desktop Check'' StatusIcon_DESKTOP (desktop_checks R env self) checker"

section \<open>The remediation layer (\<^verbatim>\<open>fedchecker/fixes\<close>)\<close>

text \<open>
  A fix changes the system, so it runs on a machine: the state of the system, of any type
  \<open>'w\<close>, and the list of the commands handed to \<^verbatim>\<open>subprocess.run\<close> so far, in order.
  The operating system is a parameter: what \<^verbatim>\<open>subprocess.run\<close> does with a command and
  a timeout, what \<^verbatim>\<open>os.path.exists\<close> answers, and what opening a file for appending and
  writing a line does. The user is the function \<open>ask\<close> from the text of a
  \<^verbatim>\<open>Confirm.ask\<close> prompt to the answer. Printing to the console and the progress bars
  are left out.
\<close>

record 'w machine =
  world :: 'w
  invoked :: "string list list"

record 'w os =
  run_process :: "string list \<Rightarrow> nat \<Rightarrow> 'w \<Rightarrow> (pyexc + CompletedProcess) \<times> 'w"
  path_exists :: "string \<Rightarrow> 'w \<Rightarrow> bool"
  append_file :: "string \<Rightarrow> string \<Rightarrow> 'w \<Rightarrow> (pyexc + unit) \<times> 'w"

record FixResult =
  success :: bool
  fix_message :: string
  fix_details :: string
  requires_reboot :: bool

type_synonym ('w, 'a) action = "'w machine \<Rightarrow> (pyexc + 'a) \<times> 'w machine"

text \<open>
  \<^verbatim>\<open>_run_command\<close>, the executor, which every fixer defines with the same body.
  \<^verbatim>\<open>TimeoutExpired\<close> and \<^verbatim>\<open>FileNotFoundError\<close> become a failure with a message; any
  other exception leaves the method. The default of \<^verbatim>\<open>timeout\<close> is 300 seconds in
  \<^verbatim>\<open>HealthFixer\<close> and \<^verbatim>\<open>DriverFixer\<close> and 120 in \<^verbatim>\<open>SecurityFixer\<close> and
  \<^verbatim>\<open>DesktopFixer\<close>; here every call passes it.
\<close>

definition run_command :: "'w os \<Rightarrow> string list \<Rightarrow> bool \<Rightarrow> nat \<Rightarrow> ('w, bool \<times> string) action" where
  "run_command sys cmd sudo timeout m =
     (let cmd1 = (if sudo then ''sudo'' # cmd else cmd);
          (r, w1) = run_process sys cmd1 timeout (world m);
          m1 = \<lparr>world = w1, invoked = invoked m @ [cmd1]\<rparr>
      in case r of
           Inr result \<Rightarrow> (Inr (returncode result = 0, stdout result @ stderr result), m1)
         | Inl (TimeoutExpired _) \<Rightarrow> (Inr (False, ''Command timed out''), m1)
         | Inl (FileNotFoundError s) \<Rightarrow> (Inr (False, s), m1)
         | Inl e \<Rightarrow> (Inl e, m1))"

subsection \<open>\<^verbatim>\<open>HealthFixer\<close> (\<^verbatim>\<open>fixes/health_fix.py\<close>)\<close>

text \<open>
  \<^verbatim>\<open>fix_disk_space\<close>: the loop files each step under \<^verbatim>\<open>cleaned\<close> or \<^verbatim>\<open>failed\<close>
  and goes on to the next one.
\<close>

definition disk_space_steps :: "(string \<times> string list) list" where
  "disk_space_steps =
     [(''Cleaning DNF cache'', [''dnf'', ''clean'', ''all'']),
      (''Removing orphaned packages'', [''dnf'', ''autoremove'', ''-y'']),
      (''Cleaning old kernels'', [''dnf'', ''remove'', ''--oldinstallonly'', ''-y'']),
      (''Cleaning journal logs'', [''journalctl'', ''--vacuum-time=7d''])]"

fun disk_space_loop ::
  "'w os \<Rightarrow> (string \<times> string list) list \<Rightarrow> string list \<Rightarrow> string list
   \<Rightarrow> ('w, string list \<times> string list) action" where
  "disk_space_loop sys [] cleaned failed_steps m = (Inr (cleaned, failed_steps), m)"
| "disk_space_loop sys ((desc, cmd) # steps) cleaned failed_steps m =
     (case run_command sys cmd True 300 m of
        (Inl e, m1) \<Rightarrow> (Inl e, m1)
      | (Inr (ok, output), m1) \<Rightarrow>
          if ok then disk_space_loop sys steps (cleaned @ [desc]) failed_steps m1
          else disk_space_loop sys steps cleaned (failed_steps @ [desc]) m1)"

definition fix_disk_space :: "'w os \<Rightarrow> ('w, FixResult) action" where
  "fix_disk_space sys m =
     (case disk_space_loop sys disk_space_steps [] [] m of
        (Inl e, m1) \<Rightarrow> (Inl e, m1)
      | (Inr (cleaned, failed_steps), m1) \<Rightarrow>
          if failed_steps \<noteq> [] then
            (Inr \<lparr>success = False,
                  fix_message = ''Partial cleanup: '' @ str_nat (length cleaned) @ ''/''
                                @ str_nat (length disk_space_steps) @ '' steps completed'',
                  fix_details = ''Failed: '' @ join '', '' failed_steps,
                  requires_reboot = False\<rparr>, m1)
          else
            (Inr \<lparr>success = True, fix_message = ''Disk cleanup completed'',
                  fix_details = ''Completed: '' @ join '', '' cleaned,
                  requires_reboot = False\<rparr>, m1))"

definition fix_failed_units :: "'w os \<Rightarrow> ('w, FixResult) action" where
  "fix_failed_units sys m =
     (case run_command sys [''systemctl'', ''reset-failed''] True 300 m of
        (Inl e, m1) \<Rightarrow> (Inl e, m1)
      | (Inr (ok, output), m1) \<Rightarrow>
          if ok then
            (Inr \<lparr>success = True, fix_message = ''Failed units reset'', fix_details = [],
                  requires_reboot = False\<rparr>, m1)
          else
            (Inr \<lparr>success = False, fix_message = ''Failed to reset units'', fix_details = output,
                  requires_reboot = False\<rparr>, m1))"

text \<open>
  \<^verbatim>\<open>fix_dnf_issues\<close>: the loop returns from the method at the first step that fails;
  \<open>None\<close> is the loop running to its end.
\<close>

definition dnf_steps :: "(string \<times> string list) list" where
  "dnf_steps =
     [(''Rebuilding RPM database'', [''rpm'', ''--rebuilddb'']),
      (''Cleaning DNF cache'', [''dnf'', ''clean'', ''all'']),
      (''Checking for problems'', [''dnf'', ''check'']),
      (''Syncing distribution'', [''dnf'', ''distro-sync'', ''-y''])]"

fun dnf_loop :: "'w os \<Rightarrow> (string \<times> string list) list \<Rightarrow> ('w, FixResult option) action" where
  "dnf_loop sys [] m = (Inr None, m)"
| "dnf_loop sys ((desc, cmd) # steps) m =
     (case run_command sys cmd True 600 m of
        (Inl e, m1) \<Rightarrow> (Inl e, m1)
      | (Inr (ok, output), m1) \<Rightarrow>
          if \<not> ok then
            (Inr (Some \<lparr>success = False, fix_message = ''Failed at: '' @ desc,
                        fix_details = take_chars 500 output, requires_reboot = False\<rparr>), m1)
          else dnf_loop sys steps m1)"

definition fix_dnf_issues :: "'w os \<Rightarrow> ('w, FixResult) action" where
  "fix_dnf_issues sys m =
     (case dnf_loop sys dnf_steps m of
        (Inl e, m1) \<Rightarrow> (Inl e, m1)
      | (Inr (Some r), m1) \<Rightarrow> (Inr r, m1)
      | (Inr None, m1) \<Rightarrow>
          (Inr \<lparr>success = True, fix_message = ''Package manager issues fixed'', fix_details = [],
                requires_reboot = False\<rparr>, m1))"

definition fix_orphaned_packages :: "'w os \<Rightarrow> ('w, FixResult) action" where
  "fix_orphaned_packages sys m =
     (case run_command sys [''dnf'', ''autoremove'', ''-y''] True 300 m of
        (Inl e, m1) \<Rightarrow> (Inl e, m1)
      | (Inr (ok, output), m1) \<Rightarrow>
          if ok then
            (Inr \<lparr>success = True, fix_message = ''Removed orphaned packages'',
                  fix_details = (if len_chars output > 500 then last_chars 500 output
                                 else output),
                  requires_reboot = False\<rparr>, m1)
          else
            (Inr \<lparr>success = False, fix_message = ''Failed to remove orphaned packages'',
                  fix_details = output, requires_reboot = False\<rparr>, m1))"

text \<open>
  \<^verbatim>\<open>create_swap\<close>: at the first step that fails, the loop runs \<^verbatim>\<open>rm -f /swapfile\<close>,
  whose own result it does not read, and returns. After the loop the entry goes to
  \<^verbatim>\<open>/etc/fstab\<close>, through \<^verbatim>\<open>bash\<close> under \<^verbatim>\<open>sudo\<close> when opening the file raises
  \<^verbatim>\<open>PermissionError\<close>.
\<close>

definition swapfile :: string where
  "swapfile = ''/swapfile''"

definition swap_steps :: "nat \<Rightarrow> (string \<times> string list) list" where
  "swap_steps size_gb =
     [(''Allocating space'', [''fallocate'', ''-l'', str_nat size_gb @ ''G'', swapfile]),
      (''Setting permissions'', [''chmod'', ''600'', swapfile]),
      (''Formatting swap'', [''mkswap'', swapfile]),
      (''Enabling swap'', [''swapon'', swapfile])]"

fun swap_loop :: "'w os \<Rightarrow> (string \<times> string list) list \<Rightarrow> ('w, FixResult option) action" where
  "swap_loop sys [] m = (Inr None, m)"
| "swap_loop sys ((desc, cmd) # steps) m =
     (case run_command sys cmd True 300 m of
        (Inl e, m1) \<Rightarrow> (Inl e, m1)
      | (Inr (ok, output), m1) \<Rightarrow>
          if \<not> ok then
            (case run_command sys [''rm'', ''-f'', swapfile] True 300 m1 of
               (Inl e, m2) \<Rightarrow> (Inl e, m2)
             | (Inr _, m2) \<Rightarrow>
                 (Inr (Some \<lparr>success = False, fix_message = ''Failed at: '' @ desc,
                             fix_details = output, requires_reboot = False\<rparr>), m2))
          else swap_loop sys steps m1)"

definition add_to_fstab :: "'w os \<Rightarrow> ('w, unit) action" where
  "add_to_fstab sys m =
     (case append_file sys ''/etc/fstab'' (swapfile @ '' none swap sw 0 0'' @ newline) (world m) of
        (Inr _, w1) \<Rightarrow> (Inr (), m\<lparr>world := w1\<rparr>)
      | (Inl (PermissionError _), w1) \<Rightarrow>
          (case run_command sys
                  [''bash'', ''-c'',
                   ''echo '' @ [CHR 0x27] @ swapfile @ '' none swap sw 0 0' >> /etc/fstab'']
                  True 300 (m\<lparr>world := w1\<rparr>) of
             (Inl e, m2) \<Rightarrow> (Inl e, m2)
           | (Inr _, m2) \<Rightarrow> (Inr (), m2))
      | (Inl e, w1) \<Rightarrow> (Inl e, m\<lparr>world := w1\<rparr>))"

definition create_swap :: "'w os \<Rightarrow> nat \<Rightarrow> ('w, FixResult) action" where
  "create_swap sys size_gb m =
     (if path_exists sys swapfile (world m) then
        (Inr \<lparr>success = False, fix_message = ''Swap file already exists'',
              fix_details = ''Remove /swapfile first if you want to recreate it'',
              requires_reboot = False\<rparr>, m)
      else
        (case swap_loop sys (swap_steps size_gb) m of
           (Inl e, m1) \<Rightarrow> (Inl e, m1)
         | (Inr (Some r), m1) \<Rightarrow> (Inr r, m1)
         | (Inr None, m1) \<Rightarrow>
             (case add_to_fstab sys m1 of
                (Inl e, m2) \<Rightarrow> (Inl e, m2)
              | (Inr _, m2) \<Rightarrow>
                  (Inr \<lparr>success = True,
                        fix_message = ''Created '' @ str_nat size_gb @ ''GB swap file'',
                        fix_details = ''Swap is now active and will persist across reboots'',
                        requires_reboot = False\<rparr>, m2))))"

text \<open>
  The dispatcher. Every \<^verbatim>\<open>apply_fix\<close> ends with the same block, \<open>generic_fix\<close>: when the
  result carries a command, the user is asked whether to run it, and it runs under
  \<^verbatim>\<open>sudo bash -c\<close>. \<^verbatim>\<open>HealthFixer.apply_fix\<close> looks the name of the result up in
  \<^verbatim>\<open>fix_map\<close>; with a handler found and the prompt accepted the handler runs, and in
  every other case control reaches the generic block. \<^verbatim>\<open>create_swap\<close> is called with
  its default size, 4.
\<close>

definition generic_fix :: "'w os \<Rightarrow> (string \<Rightarrow> bool) \<Rightarrow> CheckResult \<Rightarrow> ('w, FixResult option) action" where
  "generic_fix sys ask check_result m =
     (if fix_command check_result \<noteq> [] then
        if ask (''Run fix command for [bold]'' @ name check_result @ ''[/]?'' @ newline
                @ ''[dim]'' @ fix_command check_result @ ''[/]'')
        then
          (case run_command sys [''bash'', ''-c'', fix_command check_result] True 300 m of
             (Inl e, m1) \<Rightarrow> (Inl e, m1)
           | (Inr (ok, output), m1) \<Rightarrow>
               (Inr (Some \<lparr>success = ok,
                           fix_message = (if ok then ''Fix applied'' else ''Fix failed''),
                           fix_details = output, requires_reboot = False\<rparr>), m1))
        else (Inr None, m)
      else (Inr None, m))"

definition returning :: "('w, FixResult) action \<Rightarrow> ('w, FixResult option) action" where
  "returning fix_func m = (case fix_func m of (Inl e, m1) \<Rightarrow> (Inl e, m1) | (Inr r, m1) \<Rightarrow> (Inr (Some r), m1))"

definition HealthFixer_fix_map :: "'w os \<Rightarrow> string \<Rightarrow> ('w, FixResult) action option" where
  "HealthFixer_fix_map sys =
     map_of [(''Disk Space'', fix_disk_space sys),
             (''Failed Systemd Units'', fix_failed_units sys),
             (''Package Manager'', fix_dnf_issues sys),
             (''Orphaned Packages'', fix_orphaned_packages sys),
             (''Swap Space'', create_swap sys 4)]"

definition HealthFixer_apply_fix ::
  "'w os \<Rightarrow> (string \<Rightarrow> bool) \<Rightarrow> CheckResult \<Rightarrow> ('w, FixResult option) action" where
  "HealthFixer_apply_fix sys ask check_result m =
     (if \<not> fix_available check_result then (Inr None, m)
      else
        (case HealthFixer_fix_map sys (name check_result) of
           Some fix_func \<Rightarrow>
             if ask (''Apply fix for [bold]'' @ name check_result @ ''[/]?'')
             then returning fix_func m
             else generic_fix sys ask check_result m
         | None \<Rightarrow> generic_fix sys ask check_result m))"

subsection \<open>\<^verbatim>\<open>DriverFixer\<close> (\<^verbatim>\<open>fixes/driver_fix.py\<close>)\<close>

text \<open>
  \<^verbatim>\<open>install_nvidia_driver\<close>: a step whose words hold a \<^verbatim>\<open>$\<close> runs through
  \<^verbatim>\<open>bash -c\<close>; a failure of the step named after RPM Fusion does not stop the loop.
\<close>

definition nvidia_steps :: "(string \<times> string list) list" where
  "nvidia_steps =
     [(''Enabling RPM Fusion'',
       [''dnf'', ''install'', ''-y'',
        ''https://download1.rpmfusion.org/free/fedora/rpmfusion-free-release-$(rpm -E %fedora).noarch.rpm'',
        ''https://download1.rpmfusion.org/nonfree/fedora/rpmfusion-nonfree-release-$(rpm -E %fedora).noarch.rpm'']),
      (''Installing NVIDIA driver'', [''dnf'', ''install'', ''-y'', ''akmod-nvidia'']),
      (''Installing CUDA support'', [''dnf'', ''install'', ''-y'', ''xorg-x11-drv-nvidia-cuda''])]"

fun nvidia_loop :: "'w os \<Rightarrow> (string \<times> string list) list \<Rightarrow> ('w, FixResult option) action" where
  "nvidia_loop sys [] m = (Inr None, m)"
| "nvidia_loop sys ((desc, cmd) # steps) m =
     (case (if contains ''$'' (join '' '' cmd)
            then run_command sys [''bash'', ''-c'', join '' '' cmd] True 600 m
            else run_command sys cmd True 600 m) of
        (Inl e, m1) \<Rightarrow> (Inl e, m1)
      | (Inr (ok, output), m1) \<Rightarrow>
          if \<not> ok \<and> \<not> contains ''RPM Fusion'' desc then
            (Inr (Some \<lparr>success = False, fix_message = ''Failed at: '' @ desc,
                        fix_details = take_chars 500 output, requires_reboot = False\<rparr>), m1)
          else nvidia_loop sys steps m1)"

definition install_nvidia_driver :: "'w os \<Rightarrow> ('w, FixResult) action" where
  "install_nvidia_driver sys m =
     (case nvidia_loop sys nvidia_steps m of
        (Inl e, m1) \<Rightarrow> (Inl e, m1)
      | (Inr (Some r), m1) \<Rightarrow> (Inr r, m1)
      | (Inr None, m1) \<Rightarrow>
          (Inr \<lparr>success = True, fix_message = ''NVIDIA driver installed'',
                fix_details = ''Reboot required to load the new driver'',
                requires_reboot = True\<rparr>, m1))"

definition install_wifi_firmware :: "'w os \<Rightarrow> ('w, FixResult) action" where
  "install_wifi_firmware sys m =
     (case run_command sys
             ([''dnf'', ''install'', ''-y''] @
              [''linux-firmware'', ''iwl*-firmware'', ''atheros-firmware'', ''b43-openfwwf'',
               ''brcmfmac-firmware''])
             True 300 m of
        (Inl e, m1) \<Rightarrow> (Inl e, m1)
      | (Inr (ok, output), m1) \<Rightarrow>
          if ok then
            (Inr \<lparr>success = True, fix_message = ''WiFi firmware installed'',
                  fix_details = ''You may need to reboot or reload the WiFi module'',
                  requires_reboot = True\<rparr>, m1)
          else
            (Inr \<lparr>success = False, fix_message = ''Failed to install firmware'',
                  fix_details = output, requires_reboot = False\<rparr>, m1))"

definition unblock_wifi :: "'w os \<Rightarrow> ('w, FixResult) action" where
  "unblock_wifi sys m =
     (case run_command sys [''rfkill'', ''unblock'', ''wifi''] True 300 m of
        (Inl e, m1) \<Rightarrow> (Inl e, m1)
      | (Inr (ok, output), m1) \<Rightarrow>
          if ok then
            (Inr \<lparr>success = True, fix_message = ''WiFi unblocked'', fix_details = [],
                  requires_reboot = False\<rparr>, m1)
          else
            (Inr \<lparr>success = False, fix_message = ''Failed to unblock WiFi'',
                  fix_details = output, requires_reboot = False\<rparr>, m1))"

definition install_audio_drivers :: "'w os \<Rightarrow> ('w, FixResult) action" where
  "install_audio_drivers sys m =
     (case run_command sys
             ([''dnf'', ''install'', ''-y''] @
              [''alsa-firmware'', ''alsa-plugins-pulseaudio'', ''pipewire-alsa'', ''sof-firmware''])
             True 300 m of
        (Inl e, m1) \<Rightarrow> (Inl e, m1)
      | (Inr (ok, output), m1) \<Rightarrow>
          if ok then
            (Inr \<lparr>success = True, fix_message = ''Audio packages installed'', fix_details = [],
                  requires_reboot = True\<rparr>, m1)
          else
            (Inr \<lparr>success = False, fix_message = ''Failed to install audio packages'',
                  fix_details = output, requires_reboot = False\<rparr>, m1))"

definition bluetooth_steps :: "(string \<times> string list) list" where
  "bluetooth_steps =
     [(''Unblocking Bluetooth'', [''rfkill'', ''unblock'', ''bluetooth'']),
      (''Enabling service'', [''systemctl'', ''enable'', ''--now'', ''bluetooth''])]"

fun bluetooth_loop :: "'w os \<Rightarrow> (string \<times> string list) list \<Rightarrow> ('w, FixResult option) action" where
  "bluetooth_loop sys [] m = (Inr None, m)"
| "bluetooth_loop sys ((desc, cmd) # steps) m =
     (case run_command sys cmd True 300 m of
        (Inl e, m1) \<Rightarrow> (Inl e, m1)
      | (Inr (ok, output), m1) \<Rightarrow>
          if \<not> ok then
            (Inr (Some \<lparr>success = False, fix_message = ''Failed at: '' @ desc,
                        fix_details = output, requires_reboot = False\<rparr>), m1)
          else bluetooth_loop sys steps m1)"

definition enable_bluetooth :: "'w os \<Rightarrow> ('w, FixResult) action" where
  "enable_bluetooth sys m =
     (case bluetooth_loop sys bluetooth_steps m of
        (Inl e, m1) \<Rightarrow> (Inl e, m1)
      | (Inr (Some r), m1) \<Rightarrow> (Inr r, m1)
      | (Inr None, m1) \<Rightarrow>
          (Inr \<lparr>success = True, fix_message = ''Bluetooth enabled'', fix_details = [],
                requires_reboot = False\<rparr>, m1))"

definition install_hw_acceleration :: "'w os \<Rightarrow> ('w, FixResult) action" where
  "install_hw_acceleration sys m =
     (case run_command sys
             ([''dnf'', ''install'', ''-y''] @
              [''libva-utils'', ''vdpauinfo'', ''mesa-va-drivers'', ''mesa-vdpau-drivers'',
               ''libva-intel-driver'', ''intel-media-driver''])
             True 300 m of
        (Inl e, m1) \<Rightarrow> (Inl e, m1)
      | (Inr (ok, output), m1) \<Rightarrow>
          if ok then
            (Inr \<lparr>success = True, fix_message = ''Hardware acceleration installed'',
                  fix_details = [], requires_reboot = False\<rparr>, m1)
          else
            (Inr \<lparr>success = False, fix_message = ''Failed to install packages'',
                  fix_details = output, requires_reboot = False\<rparr>, m1))"

definition update_firmware :: "'w os \<Rightarrow> ('w, FixResult) action" where
  "update_firmware sys m =
     (case run_command sys [''fwupdmgr'', ''refresh'', ''--force''] True 60 m of
        (Inl e, m1) \<Rightarrow> (Inl e, m1)
      | (Inr _, m1) \<Rightarrow>
          (case run_command sys [''fwupdmgr'', ''update'', ''-y''] True 600 m1 of
             (Inl e, m2) \<Rightarrow> (Inl e, m2)
           | (Inr (ok, output), m2) \<Rightarrow>
               if ok \<or> contains ''No upgrades'' output then
                 (Inr \<lparr>success = True, fix_message = ''Firmware updated'', fix_details = [],
                       requires_reboot = contains ''reboot'' (lower output)\<rparr>, m2)
               else
                 (Inr \<lparr>success = False, fix_message = ''Failed to update firmware'',
                       fix_details = output, requires_reboot = False\<rparr>, m2)))"

text \<open>
  \<^verbatim>\<open>DriverFixer.apply_fix\<close>: before the lookup in \<^verbatim>\<open>fix_map\<close>, a result whose message
  holds \<^verbatim>\<open>blocked\<close> goes to \<^verbatim>\<open>unblock_wifi\<close> or \<^verbatim>\<open>enable_bluetooth\<close> by its name,
  with no prompt.
\<close>

definition DriverFixer_fix_map :: "'w os \<Rightarrow> string \<Rightarrow> ('w, FixResult) action option" where
  "DriverFixer_fix_map sys =
     map_of [(''GPU Driver'', install_nvidia_driver sys),
             (''WiFi Driver'', install_wifi_firmware sys),
             (''Audio Driver'', install_audio_drivers sys),
             (''Bluetooth'', enable_bluetooth sys),
             (''Firmware Updates'', update_firmware sys),
             (''Hardware Acceleration'', install_hw_acceleration sys)]"

definition DriverFixer_lookup ::
  "'w os \<Rightarrow> (string \<Rightarrow> bool) \<Rightarrow> CheckResult \<Rightarrow> ('w, FixResult option) action" where
  "DriverFixer_lookup sys ask check_result m =
     (case DriverFixer_fix_map sys (name check_result) of
        Some fix_func \<Rightarrow>
          if ask (''Apply fix for [bold]'' @ name check_result @ ''[/]?'')
          then returning fix_func m
          else generic_fix sys ask check_result m
      | None \<Rightarrow> generic_fix sys ask check_result m)"

definition DriverFixer_apply_fix ::
  "'w os \<Rightarrow> (string \<Rightarrow> bool) \<Rightarrow> CheckResult \<Rightarrow> ('w, FixResult option) action" where
  "DriverFixer_apply_fix sys ask check_result m =
     (if \<not> fix_available check_result then (Inr None, m)
      else if contains ''blocked'' (lower (message check_result)) then
        if contains ''wifi'' (lower (name check_result)) then returning (unblock_wifi sys) m
        else if contains ''bluetooth'' (lower (name check_result))
        then returning (enable_bluetooth sys) m
        else DriverFixer_lookup sys ask check_result m
      else DriverFixer_lookup sys ask check_result m)"

subsection \<open>\<^verbatim>\<open>SecurityFixer\<close> and \<^verbatim>\<open>DesktopFixer\<close> (\<^verbatim>\<open>fixes/security_fix.py\<close>, \<^verbatim>\<open>fixes/desktop_fix.py\<close>)\<close>

text \<open>
  Of these two fixers, the remediations that walk a table of steps. \<^verbatim>\<open>enable_firewall\<close>
  calls the executor with its default timeout, 120 seconds, and passes over a failed step
  whose output, in lower case, contains \<^verbatim>\<open>already installed\<close>. \<^verbatim>\<open>install_flatpak\<close> runs
  a step under \<^verbatim>\<open>sudo\<close> when \<^verbatim>\<open>dnf\<close> is one of the words of its command.
\<close>

definition firewall_steps :: "(string \<times> string list) list" where
  "firewall_steps =
     [(''Installing firewalld'', [''dnf'', ''install'', ''-y'', ''firewalld'']),
      (''Enabling service'', [''systemctl'', ''enable'', ''--now'', ''firewalld'']),
      (''Setting default zone'', [''firewall-cmd'', ''--set-default-zone=FedoraWorkstation''])]"

fun firewall_loop :: "'w os \<Rightarrow> (string \<times> string list) list \<Rightarrow> ('w, FixResult option) action" where
  "firewall_loop sys [] m = (Inr None, m)"
| "firewall_loop sys ((desc, cmd) # steps) m =
     (case run_command sys cmd True 120 m of
        (Inl e, m1) \<Rightarrow> (Inl e, m1)
      | (Inr (ok, output), m1) \<Rightarrow>
          if \<not> ok \<and> \<not> contains ''already installed'' (lower output) then
            (Inr (Some \<lparr>success = False, fix_message = ''Failed at: '' @ desc,
                        fix_details = output, requires_reboot = False\<rparr>), m1)
          else firewall_loop sys steps m1)"

definition enable_firewall :: "'w os \<Rightarrow> ('w, FixResult) action" where
  "enable_firewall sys m =
     (case firewall_loop sys firewall_steps m of
        (Inl e, m1) \<Rightarrow> (Inl e, m1)
      | (Inr (Some r), m1) \<Rightarrow> (Inr r, m1)
      | (Inr None, m1) \<Rightarrow>
          (Inr \<lparr>success = True, fix_message = ''Firewall enabled and configured'',
                fix_details = [], requires_reboot = False\<rparr>, m1))"

definition flatpak_steps :: "(string \<times> string list) list" where
  "flatpak_steps =
     [(''Installing Flatpak'', [''dnf'', ''install'', ''-y'', ''flatpak'']),
      (''Adding Flathub'',
       [''flatpak'', ''remote-add'', ''--if-not-exists'', ''flathub'',
        ''https://flathub.org/repo/flathub.flatpakrepo''])]"

fun flatpak_loop :: "'w os \<Rightarrow> (string \<times> string list) list \<Rightarrow> ('w, FixResult option) action" where
  "flatpak_loop sys [] m = (Inr None, m)"
| "flatpak_loop sys ((desc, cmd) # steps) m =
     (let sudo = (''dnf'' \<in> set cmd) in
      case run_command sys cmd sudo 120 m of
        (Inl e, m1) \<Rightarrow> (Inl e, m1)
      | (Inr (ok, output), m1) \<Rightarrow>
          if \<not> ok then
            (Inr (Some \<lparr>success = False, fix_message = ''Failed at: '' @ desc,
                        fix_details = output, requires_reboot = False\<rparr>), m1)
          else flatpak_loop sys steps m1)"

definition install_flatpak :: "'w os \<Rightarrow> ('w, FixResult) action" where
  "install_flatpak sys m =
     (case flatpak_loop sys flatpak_steps m of
        (Inl e, m1) \<Rightarrow> (Inl e, m1)
      | (Inr (Some r), m1) \<Rightarrow> (Inr r, m1)
      | (Inr None, m1) \<Rightarrow>
          (Inr \<lparr>success = True, fix_message = ''Flatpak configured with Flathub'',
                fix_details = ''You may need to log out and back in for apps to appear'',
                requires_reboot = False\<rparr>, m1))"

section \<open>The entry point (\<^verbatim>\<open>fedchecker/main.py\<close>)\<close>

text \<open>
  \<^verbatim>\<open>main\<close> runs \<^verbatim>\<open>FedChecker()\<close> and \<^verbatim>\<open>app.run()\<close> under two handlers. The body
  either returns or raises; \<^verbatim>\<open>sys.exit(n)\<close> raises \<^verbatim>\<open>SystemExit(n)\<close>. \<open>exit_code\<close> is
  what the interpreter makes of the way \<^verbatim>\<open>main()\<close> ends, as the last statement of the
  script: 0 when it returns, the code of a \<^verbatim>\<open>SystemExit\<close>, 1 for any other exception
  that nothing caught, except \<^verbatim>\<open>KeyboardInterrupt\<close>, on which the process ends by the
  signal and not by a code (\<open>None\<close>).
\<close>

definition sys_exit :: "int \<Rightarrow> pyexc + unit" where
  "sys_exit n = Inl (SystemExit n)"

definition main :: "pyexc + unit \<Rightarrow> pyexc + unit" where
  "main body =
     (case body of
        Inr _ \<Rightarrow> Inr ()
      | Inl KeyboardInterrupt \<Rightarrow> sys_exit 0
      | Inl e \<Rightarrow> if is_Exception e then sys_exit 1 else Inl e)"

definition exit_code :: "pyexc + unit \<Rightarrow> int option" where
  "exit_code ending =
     (case ending of
        Inr _ \<Rightarrow> Some 0
      | Inl (SystemExit n) \<Rightarrow> Some n
      | Inl KeyboardInterrupt \<Rightarrow> None
      | Inl _ \<Rightarrow> Some 1)"

section \<open>Concrete inputs\<close>

text \<open>A result of a given status, and the category of a list of statuses.\<close>

definition result_with :: "CheckStatus \<Rightarrow> CheckResult" where
  "result_with s =
     \<lparr>name = ''check'', status = s, message = ''message'', details = [],
      fix_available = False, fix_command = []\<rparr>"

definition category_of :: "CheckStatus list \<Rightarrow> CheckCategory" where
  "category_of ss = \<lparr>cname = ''Health Check'', icon = StatusIcon_HEALTH, results = map result_with ss\<rparr>"

text \<open>
  A formatter, and a system in good health but for its swap: one partition, memory half
  used, a cool processor, no swap configured, every command returning 0 with no output, a
  light load and no process in the table.
\<close>

definition plain_fmt :: fmt where
  "plain_fmt = \<lparr>str_float = (\<lambda>x. ''x''), fmt_1f = (\<lambda>x. ''x.x''), fmt_2f = (\<lambda>x. ''x.xx'')\<rparr>"

definition calm_env :: health_env where
  "calm_env =
     \<lparr>disk_partitions = Inr [(''ext4'', ''/'')],
      disk_usage = (\<lambda>mountpoint. Inr 40),
      virtual_memory = Inr (50, 8589934592),
      sensors_temperatures = Inr [(''coretemp'', [45, 47])],
      swap_memory = Inr (0, 0),
      subprocess_run = (\<lambda>cmd timeout. Inr \<lparr>returncode = 0, stdout = [], stderr = []\<rparr>),
      getloadavg = Inr (0.5, 0.4, 0.3),
      cpu_count = Some 4,
      process_iter = Inr []\<rparr>"

text \<open>The same system with \<^verbatim>\<open>psutil.virtual_memory\<close> raising.\<close>

definition no_memory_env :: health_env where
  "no_memory_env = calm_env\<lparr>virtual_memory := Inl (Exception ''no memory information'')\<rparr>"

text \<open>A table of three checks that all raise.\<close>

definition raising_checks :: "(string \<times> check) list" where
  "raising_checks =
     [(''Disk Space'', Inl (PermissionError ''denied'')),
      (''Memory Usage'', Inl (Exception ''no memory information'')),
      (''Package Manager'', Inl (TimeoutExpired ''timed out''))]"

text \<open>
  For the statements about remediations made of several steps. A command as the executor
  gets it is a pair of its words and the \<^verbatim>\<open>sudo\<close> flag; \<open>command_line\<close> is what reaches
  \<^verbatim>\<open>subprocess.run\<close>. \<open>run_steps\<close> runs such commands one after the other, whatever each
  returns, and gives the list of what the executor returned, success and output, and the
  machine after the last one; it stops only where the executor raises. \<open>as_root\<close> lists
  the commands of a table of steps, each under \<^verbatim>\<open>sudo\<close>; \<open>nvidia_commands\<close> and
  \<open>flatpak_commands\<close> list them for the two tables that are run otherwise.
\<close>

definition command_line :: "string list \<times> bool \<Rightarrow> string list" where
  "command_line c = (if snd c then ''sudo'' # fst c else fst c)"

fun run_steps ::
  "'w os \<Rightarrow> nat \<Rightarrow> (string list \<times> bool) list \<Rightarrow> 'w machine \<Rightarrow> (bool \<times> string) list \<times> 'w machine" where
  "run_steps sys timeout [] m = ([], m)"
| "run_steps sys timeout (c # cs) m =
     (case run_command sys (fst c) (snd c) timeout m of
        (Inl e, m1) \<Rightarrow> ([], m1)
      | (Inr r, m1) \<Rightarrow>
          (case run_steps sys timeout cs m1 of (rs, m2) \<Rightarrow> (r # rs, m2)))"

definition as_root :: "(string \<times> string list) list \<Rightarrow> (string list \<times> bool) list" where
  "as_root steps = map (\<lambda>(desc, cmd). (cmd, True)) steps"

definition nvidia_commands :: "(string \<times> string list) list \<Rightarrow> (string list \<times> bool) list" where
  "nvidia_commands steps =
     map (\<lambda>(desc, cmd). (if contains ''$'' (join '' '' cmd)
                           then [''bash'', ''-c'', join '' '' cmd] else cmd, True)) steps"

definition flatpak_commands :: "(string \<times> string list) list \<Rightarrow> (string list \<times> bool) list" where
  "flatpak_commands steps = map (\<lambda>(desc, cmd). (cmd, ''dnf'' \<in> set cmd)) steps"

text \<open>
  An operating system for the examples: its state counts the operations done on it; a
  command returns 0 when \<open>succeeds\<close> holds of it and 1 otherwise; no path exists; appending
  to a file works.
\<close>

definition scripted_os :: "(string list \<Rightarrow> bool) \<Rightarrow> nat os" where
  "scripted_os succeeds =
     \<lparr>run_process = (\<lambda>cmd timeout w.
         (Inr \<lparr>returncode = (if succeeds cmd then 0 else 1), stdout = [],
               stderr = (if succeeds cmd then [] else ''failed'')\<rparr>, Suc w)),
      path_exists = (\<lambda>path w. False),
      append_file = (\<lambda>path line w. (Inr (), Suc w))\<rparr>"

text \<open>
  A second one: a command returns the code and prints the text that \<open>reply\<close> gives for
  it; no path exists; \<^verbatim>\<open>/etc/fstab\<close>, like any file, cannot be opened for appending.
\<close>

definition replying_os :: "(string list \<Rightarrow> int \<times> string) \<Rightarrow> nat os" where
  "replying_os reply =
     \<lparr>run_process = (\<lambda>cmd timeout w.
         (Inr \<lparr>returncode = fst (reply cmd), stdout = snd (reply cmd), stderr = []\<rparr>, Suc w)),
      path_exists = (\<lambda>path w. False),
      append_file = (\<lambda>path line w. (Inl (PermissionError ''Permission denied''), w))\<rparr>"

definition fresh_machine :: "nat machine" where
  "fresh_machine = \<lparr>world = 0, invoked = []\<rparr>"

text \<open>
  Two results as the checks build them: a blocked wireless card, from
  \<^verbatim>\<open>check_wifi_driver\<close>, and a full disk, from \<^verbatim>\<open>check_disk_space\<close>.
\<close>

definition wifi_blocked :: CheckResult where
  "wifi_blocked =
     \<lparr>name = ''WiFi Driver'', status = WARN, message = ''iwlwifi driver loaded, WiFi blocked'',
      details = ''Interface: wlp2s0'', fix_available = True,
      fix_command = ''rfkill unblock wifi''\<rparr>"

definition disk_full :: CheckResult where
  "disk_full =
     \<lparr>name = ''Disk Space'', status = FAIL, message = ''Critical: 1 partition(s) nearly full'',
      details = ''/: x% used'', fix_available = True,
      fix_command = ''dnf autoremove && dnf clean all''\<rparr>"

text \<open>Two users: one answers no to every prompt, the other declines the named fix and
  accepts the command.\<close>

definition always_no :: "string \<Rightarrow> bool" where
  "always_no prompt = False"

definition only_the_command :: "string \<Rightarrow> bool" where
  "only_the_command prompt = startswith prompt ''Run fix command for''"

text \<open>
  A bare system for the other checkers: no command is found, no path exists, the
  environment is empty; and regular expressions that match nothing.
\<close>

definition bare_env :: probe_env where
  "bare_env =
     \<lparr>proc = (\<lambda>cmd timeout. Inl (FileNotFoundError ''No such file or directory'')),
      exists_path = (\<lambda>path. False),
      access_r = (\<lambda>path. False),
      is_file = (\<lambda>path. False),
      read_text = (\<lambda>path. Inl (FileNotFoundError ''No such file or directory'')),
      readlink = (\<lambda>path. Inl (FileNotFoundError ''No such file or directory'')),
      iterdir = (\<lambda>path. Inl (FileNotFoundError ''No such file or directory'')),
      glob = (\<lambda>dir pattern. Inr []),
      stat_mode = (\<lambda>path. Inl (FileNotFoundError ''No such file or directory'')),
      environ = (\<lambda>k. None)\<rparr>"

definition no_match :: regex where
  "no_match =
     \<lparr>re_match = (\<lambda>pattern flags s. None),
      re_search = (\<lambda>pattern flags s. None),
      re_findall = (\<lambda>pattern flags s. [])\<rparr>"

section \<open>Verified properties\<close>

subsection \<open>Score and overall status\<close>




lemma pass_warn_le_length:
  "length (filter (\<lambda>r. status r = PASS) rs) + length (filter (\<lambda>r. status r = WARN) rs) \<le> length rs"
  by (induction rs) auto

lemma all_pass_iff:
  "length (filter (\<lambda>r. status r = PASS) rs) = length rs \<longleftrightarrow> (\<forall>r\<in>set rs. status r = PASS)"
proof (induction rs)
  case Nil
  show ?case by simp
next
  case (Cons r rs)
  have le: "length (filter (\<lambda>r. status r = PASS) rs) \<le> length rs" by simp
  show ?case
  proof (cases "status r = PASS")
    case True
    with Cons show ?thesis by simp
  next
    case False
    with le show ?thesis by (auto simp del: length_filter_le)
  qed
qed

lemma percent_full_iff: "0 < (t::real) \<Longrightarrow> (x / t * 100 = 100) = (x = t)"
  by (auto simp: field_simps)

text \<open>
  C2. The score lies between 0 and 100, and it is 100 exactly when every result of the
  category is a Pass (an empty category included).
\<close>

theorem score_bounds:
  "0 \<le> score c \<and> score c \<le> 100 \<and> (score c = 100 \<longleftrightarrow> (\<forall>r\<in>set (results c). status r = PASS))"
proof (cases "results c = []")
  case True
  then show ?thesis by (simp add: score_def total_def)
next
  case False
  define p where "p = length (filter (\<lambda>r. status r = PASS) (results c))"
  define w where "w = length (filter (\<lambda>r. status r = WARN) (results c))"
  define t where "t = length (results c)"
  have t: "0 < t" using False by (simp add: t_def)
  have le: "p + w \<le> t" unfolding p_def w_def t_def by (rule pass_warn_le_length)
  have sc: "score c = ((real p + real w * 0.5) / real t) * 100"
    using t by (simp add: score_def total_def passed_def warnings_def p_def w_def t_def Let_def)
  have iff: "p = t \<longleftrightarrow> (\<forall>r\<in>set (results c). status r = PASS)"
    unfolding p_def t_def by (rule all_pass_iff)
  have lo: "0 \<le> score c" unfolding sc by simp
  have "real p + real w * 0.5 \<le> real t" using le by simp
  then have hi: "score c \<le> 100" unfolding sc using t by (simp add: field_simps)
  have "score c = 100 \<longleftrightarrow> real p + real w * 0.5 = real t"
    unfolding sc using t by (intro percent_full_iff) simp
  also have "\<dots> \<longleftrightarrow> p = t"
  proof
    assume h: "real p + real w * 0.5 = real t"
    have "real p + real w \<le> real t" using le by (metis of_nat_add of_nat_le_iff)
    with h have "real w \<le> 0" by simp
    then have "w = 0" by simp
    with h show "p = t" by simp
  next
    assume "p = t"
    with le show "real p + real w * 0.5 = real t" by simp
  qed
  finally show ?thesis using lo hi iff by simp
qed

text \<open>Four Pass score 100; nine Pass and one Skip do not, and neither does one Error.\<close>

theorem score_bounds_witness:
  "score (category_of [PASS, PASS, PASS, PASS]) = 100
   \<and> score (category_of (replicate 9 PASS @ [SKIP])) \<noteq> 100
   \<and> 0 \<le> score (category_of [ERROR]) \<and> score (category_of [ERROR]) < 100"
  using score_bounds [of "category_of [PASS, PASS, PASS, PASS]"]
        score_bounds [of "category_of (replicate 9 PASS @ [SKIP])"]
        score_bounds [of "category_of [ERROR]"]
  by (simp add: category_of_def result_with_def numeral_eq_Suc)

text \<open>
  C3. The overall status is Fail exactly when some result is a Fail; it is Warn exactly when
  no result is a Fail and some result is a Warn; it is Pass exactly when no result is a Fail
  or a Warn. So a category of Skip and Error results only has overall status Pass.
\<close>

theorem overall_status_rule:
  "(overall_status c = FAIL \<longleftrightarrow> (\<exists>r\<in>set (results c). status r = FAIL)) \<and>
   (overall_status c = WARN \<longleftrightarrow>
      \<not> (\<exists>r\<in>set (results c). status r = FAIL) \<and> (\<exists>r\<in>set (results c). status r = WARN)) \<and>
   (overall_status c = PASS \<longleftrightarrow>
      \<not> (\<exists>r\<in>set (results c). status r = FAIL) \<and> \<not> (\<exists>r\<in>set (results c). status r = WARN)) \<and>
   ((\<forall>r\<in>set (results c). status r = SKIP \<or> status r = ERROR) \<longrightarrow> overall_status c = PASS)"
proof -
  have f: "failed c > 0 \<longleftrightarrow> (\<exists>r\<in>set (results c). status r = FAIL)"
    by (simp add: failed_def filter_empty_conv)
  have w: "warnings c > 0 \<longleftrightarrow> (\<exists>r\<in>set (results c). status r = WARN)"
    by (simp add: warnings_def filter_empty_conv)
  have 1: "overall_status c = FAIL \<longleftrightarrow> (\<exists>r\<in>set (results c). status r = FAIL)"
    unfolding overall_status_def f w by simp
  have 2: "overall_status c = WARN \<longleftrightarrow>
      \<not> (\<exists>r\<in>set (results c). status r = FAIL) \<and> (\<exists>r\<in>set (results c). status r = WARN)"
    unfolding overall_status_def f w by simp
  have 3: "overall_status c = PASS \<longleftrightarrow>
      \<not> (\<exists>r\<in>set (results c). status r = FAIL) \<and> \<not> (\<exists>r\<in>set (results c). status r = WARN)"
    unfolding overall_status_def f w by simp
  have 4: "(\<forall>r\<in>set (results c). status r = SKIP \<or> status r = ERROR) \<longrightarrow> overall_status c = PASS"
    unfolding 3 by fastforce
  from 1 2 3 4 show ?thesis by blast
qed

theorem overall_status_rule_witness:
  "overall_status (category_of [SKIP, ERROR, SKIP]) = PASS
   \<and> overall_status (category_of [PASS, PASS, WARN, FAIL, SKIP]) = FAIL
   \<and> overall_status (category_of [ERROR, WARN, PASS]) = WARN"
  using overall_status_rule [of "category_of [SKIP, ERROR, SKIP]"]
        overall_status_rule [of "category_of [PASS, PASS, WARN, FAIL, SKIP]"]
        overall_status_rule [of "category_of [ERROR, WARN, PASS]"]
  by (simp add: category_of_def result_with_def)

subsection \<open>The aggregator\<close>

lemma run_checks_all:
  assumes "\<forall>(nm, c) \<in> set checks. \<forall>e. c = Inl e \<longrightarrow> is_Exception e"
  shows "run_checks checks rs =
           (None, rs @ map (\<lambda>(nm, c). case c of Inr r \<Rightarrow> r | Inl e \<Rightarrow> check_failed nm e) checks)"
  using assms
proof (induction checks arbitrary: rs)
  case Nil
  show ?case by simp
next
  case (Cons a checks)
  obtain nm c where a: "a = (nm, c)" by (cases a)
  from Cons.prems have rest: "\<forall>(nm, c) \<in> set checks. \<forall>e. c = Inl e \<longrightarrow> is_Exception e"
    by simp
  show ?case
  proof (cases c)
    case (Inl e)
    with Cons.prems a have "is_Exception e" by simp
    with Inl a Cons.IH [OF rest] show ?thesis by simp
  next
    case (Inr r)
    with a Cons.IH [OF rest] show ?thesis by simp
  qed
qed

text \<open>
  C4. In a run of the aggregator over a table of N checks, none of which raises anything
  but an \<^verbatim>\<open>Exception\<close>, the method returns a category of exactly N results: at the
  place of a check that returned, the result it returned; at the place of a check that
  raised, a result of status Error under the name of the check, with the message
  \<^verbatim>\<open>Check failed: \<close> followed by the text of the exception, which is not empty. Nothing is
  asked of how many checks raise, so the run of a table in which every check raises returns
  N results of status Error.
\<close>

theorem aggregator_isolation:
  assumes "\<forall>(nm, c) \<in> set checks. \<forall>e. c = Inl e \<longrightarrow> is_Exception e"
  shows "\<exists>cat self1.
           run_all_checks category_name category_icon checks self = (Inr cat, self1)
           \<and> length (results cat) = length checks
           \<and> (\<forall>i < length checks. \<forall>r. snd (checks ! i) = Inr r \<longrightarrow> results cat ! i = r)
           \<and> (\<forall>i < length checks. \<forall>e. snd (checks ! i) = Inl e \<longrightarrow>
                 name (results cat ! i) = fst (checks ! i)
                 \<and> status (results cat ! i) = ERROR
                 \<and> message (results cat ! i) = ''Check failed: '' @ str_exc e
                 \<and> message (results cat ! i) \<noteq> [])"
proof -
  let ?f = "\<lambda>(nm, c). case c of Inr r \<Rightarrow> r | Inl e \<Rightarrow> check_failed nm e"
  let ?cat = "\<lparr>cname = category_name, icon = category_icon, results = map ?f checks\<rparr>"
  have run: "run_all_checks category_name category_icon checks self
               = (Inr ?cat, \<lparr>self_results = map ?f checks\<rparr>)"
    by (simp add: run_all_checks_def run_checks_all [OF assms])
  have ok: "\<forall>i < length checks. \<forall>r. snd (checks ! i) = Inr r \<longrightarrow> results ?cat ! i = r"
    by (auto simp: split_beta)
  have err: "\<forall>i < length checks. \<forall>e. snd (checks ! i) = Inl e \<longrightarrow>
                 name (results ?cat ! i) = fst (checks ! i)
                 \<and> status (results ?cat ! i) = ERROR
                 \<and> message (results ?cat ! i) = ''Check failed: '' @ str_exc e
                 \<and> message (results ?cat ! i) \<noteq> []"
    by (auto simp: split_beta check_failed_def)
  from run ok err show ?thesis
    by (intro exI [of _ ?cat] exI [of _ "\<lparr>self_results = map ?f checks\<rparr>"]) simp
qed

text \<open>The ten health checks on the system whose memory cannot be read.\<close>

lemma no_memory_disk_space:
  "check_disk_space plain_fmt no_memory_env =
     Inr \<lparr>name = ''Disk Space'', status = PASS, message = ''Root partition: x% used'',
          details = [], fix_available = False, fix_command = []\<rparr>"
  by (simp add: check_disk_space_def no_memory_env_def calm_env_def plain_fmt_def startswith_def)

lemma no_memory_memory:
  "check_memory plain_fmt no_memory_env = Inl (Exception ''no memory information'')"
  by (simp add: check_memory_def no_memory_env_def calm_env_def)

lemma no_memory_cpu_temperature:
  "check_cpu_temperature plain_fmt no_memory_env =
     Inr \<lparr>name = ''CPU Temperature'', status = PASS, message = ''x'' @ degree_C,
          details = [], fix_available = False, fix_command = []\<rparr>"
  by (simp add: check_cpu_temperature_def no_memory_env_def calm_env_def plain_fmt_def
      max_temp_of_def str_temp_def Let_def)

lemma no_memory_swap:
  "check_swap plain_fmt no_memory_env =
     Inr \<lparr>name = ''Swap Space'', status = WARN, message = ''No swap configured'',
          details = ''Consider adding swap for stability'',
          fix_available = True,
          fix_command = ''fallocate -l 4G /swapfile && chmod 600 /swapfile && mkswap /swapfile && swapon /swapfile''\<rparr>"
  by (simp add: check_swap_def no_memory_env_def calm_env_def plain_fmt_def Let_def)

lemma no_memory_failed_units:
  "check_failed_units no_memory_env =
     Inr \<lparr>name = ''Failed Systemd Units'', status = PASS, message = ''No failed units'',
          details = [], fix_available = False, fix_command = []\<rparr>"
  by (simp add: check_failed_units_def no_memory_env_def calm_env_def strip_def split_char_def)

lemma no_memory_system_load:
  "check_system_load plain_fmt no_memory_env =
     Inr \<lparr>name = ''System Load'', status = PASS, message = ''Load: x.xx (4 CPUs)'',
          details = [], fix_available = False, fix_command = []\<rparr>"
  by (simp add: check_system_load_def no_memory_env_def calm_env_def plain_fmt_def Let_def
      str_nat.simps)

lemma no_memory_zombie_processes:
  "check_zombie_processes no_memory_env =
     Inr \<lparr>name = ''Zombie Processes'', status = PASS, message = ''No zombie processes'',
          details = [], fix_available = False, fix_command = []\<rparr>"
  by (simp add: check_zombie_processes_def no_memory_env_def calm_env_def)

lemma no_memory_dnf_status:
  "check_dnf_status no_memory_env =
     Inr \<lparr>name = ''Package Manager'', status = PASS, message = ''DNF is healthy'',
          details = [], fix_available = False, fix_command = []\<rparr>"
  by (simp add: check_dnf_status_def no_memory_env_def calm_env_def)

lemma no_memory_journal_errors:
  "check_journal_errors no_memory_env =
     Inr \<lparr>name = ''Journal Errors'', status = PASS, message = ''No errors since boot'',
          details = [], fix_available = False, fix_command = []\<rparr>"
  by (simp add: check_journal_errors_def no_memory_env_def calm_env_def strip_def split_char_def
      Let_def)

lemma no_memory_orphaned_packages:
  "check_orphaned_packages no_memory_env =
     Inr \<lparr>name = ''Orphaned Packages'', status = PASS, message = ''No orphaned packages'',
          details = [], fix_available = False, fix_command = []\<rparr>"
  by (simp add: check_orphaned_packages_def no_memory_env_def calm_env_def strip_def
      split_char_def Let_def)

lemmas no_memory_checks =
  no_memory_disk_space no_memory_memory no_memory_cpu_temperature no_memory_swap
  no_memory_failed_units no_memory_system_load no_memory_zombie_processes no_memory_dnf_status
  no_memory_journal_errors no_memory_orphaned_packages

text \<open>
  One check of the ten raises and nine return: the category has ten results, the second an
  Error with the text of the exception, the others what their checks returned (a Warn for
  the missing swap, a Pass for the rest). And a table
  of three checks that all raise gives three Errors.
\<close>

theorem aggregator_isolation_witness:
  "(\<exists>cat self1.
         HealthChecker_run_all_checks plain_fmt no_memory_env \<lparr>self_results = []\<rparr> = (Inr cat, self1)
         \<and> length (results cat) = 10
         \<and> status (results cat ! 1) = ERROR
         \<and> message (results cat ! 1) = ''Check failed: no memory information''
         \<and> map status (results cat) = [PASS, ERROR, PASS, WARN, PASS, PASS, PASS, PASS, PASS, PASS])
   \<and> (\<exists>cat self1.
         run_all_checks ''Health Check'' StatusIcon_HEALTH raising_checks \<lparr>self_results = []\<rparr>
           = (Inr cat, self1)
         \<and> length (results cat) = 3
         \<and> status (results cat ! 0) = ERROR \<and> status (results cat ! 1) = ERROR
         \<and> status (results cat ! 2) = ERROR)"
proof -
  have h1: "\<forall>(nm, c) \<in> set (health_checks plain_fmt no_memory_env). \<forall>e. c = Inl e \<longrightarrow> is_Exception e"
    by (simp add: health_checks_def no_memory_checks)
  have h2: "\<forall>(nm, c) \<in> set raising_checks. \<forall>e. c = Inl e \<longrightarrow> is_Exception e"
    by (simp add: raising_checks_def)
  from aggregator_isolation [OF h1, of "''Health Check''" StatusIcon_HEALTH "\<lparr>self_results = []\<rparr>"]
  obtain cat self1 where
    run: "run_all_checks ''Health Check'' StatusIcon_HEALTH (health_checks plain_fmt no_memory_env)
            \<lparr>self_results = []\<rparr> = (Inr cat, self1)"
    and len: "length (results cat) = length (health_checks plain_fmt no_memory_env)"
    and ok: "\<forall>i < length (health_checks plain_fmt no_memory_env).
               \<forall>r. snd (health_checks plain_fmt no_memory_env ! i) = Inr r \<longrightarrow> results cat ! i = r"
    and err: "\<forall>i < length (health_checks plain_fmt no_memory_env).
               \<forall>e. snd (health_checks plain_fmt no_memory_env ! i) = Inl e \<longrightarrow>
                 name (results cat ! i) = fst (health_checks plain_fmt no_memory_env ! i)
                 \<and> status (results cat ! i) = ERROR
                 \<and> message (results cat ! i) = ''Check failed: '' @ str_exc e
                 \<and> message (results cat ! i) \<noteq> []"
    by blast
  have len10: "length (results cat) = 10"
    using len by (simp add: health_checks_def)
  have e1: "status (results cat ! 1) = ERROR
            \<and> message (results cat ! 1) = ''Check failed: no memory information''"
    using err [rule_format, of 1 "Exception ''no memory information''"]
    by (simp add: health_checks_def no_memory_checks)
  have s: "status (results cat ! 0) = PASS" "status (results cat ! 2) = PASS"
    "status (results cat ! 3) = WARN" "status (results cat ! 4) = PASS"
    "status (results cat ! 5) = PASS" "status (results cat ! 6) = PASS"
    "status (results cat ! 7) = PASS" "status (results cat ! 8) = PASS"
    "status (results cat ! 9) = PASS"
    using ok [rule_format, of 0] ok [rule_format, of 2] ok [rule_format, of 3]
      ok [rule_format, of 4] ok [rule_format, of 5] ok [rule_format, of 6]
      ok [rule_format, of 7] ok [rule_format, of 8] ok [rule_format, of 9]
    by (simp_all add: health_checks_def no_memory_checks)
  have statuses: "map status (results cat)
                    = [PASS, ERROR, PASS, WARN, PASS, PASS, PASS, PASS, PASS, PASS]"
    using len10 e1 s by (intro nth_equalityI) (auto simp: less_Suc_eq numeral_eq_Suc)
  have first: "\<exists>cat self1.
         HealthChecker_run_all_checks plain_fmt no_memory_env \<lparr>self_results = []\<rparr> = (Inr cat, self1)
         \<and> length (results cat) = 10
         \<and> status (results cat ! 1) = ERROR
         \<and> message (results cat ! 1) = ''Check failed: no memory information''
         \<and> map status (results cat) = [PASS, ERROR, PASS, WARN, PASS, PASS, PASS, PASS, PASS, PASS]"
    unfolding HealthChecker_run_all_checks_def
    using run len10 e1 statuses by (intro exI [of _ cat] exI [of _ self1]) simp
  from aggregator_isolation [OF h2, of "''Health Check''" StatusIcon_HEALTH "\<lparr>self_results = []\<rparr>"]
  obtain cat2 self2 where
    run2: "run_all_checks ''Health Check'' StatusIcon_HEALTH raising_checks \<lparr>self_results = []\<rparr>
             = (Inr cat2, self2)"
    and len2: "length (results cat2) = length raising_checks"
    and err2: "\<forall>i < length raising_checks. \<forall>e. snd (raising_checks ! i) = Inl e \<longrightarrow>
                 name (results cat2 ! i) = fst (raising_checks ! i)
                 \<and> status (results cat2 ! i) = ERROR
                 \<and> message (results cat2 ! i) = ''Check failed: '' @ str_exc e
                 \<and> message (results cat2 ! i) \<noteq> []"
    by blast
  have "length (results cat2) = 3" using len2 by (simp add: raising_checks_def)
  moreover have "status (results cat2 ! 0) = ERROR" "status (results cat2 ! 1) = ERROR"
    "status (results cat2 ! 2) = ERROR"
    using err2 [rule_format, of 0] err2 [rule_format, of 1] err2 [rule_format, of 2]
    by (simp_all add: raising_checks_def)
  ultimately have second: "\<exists>cat self1.
         run_all_checks ''Health Check'' StatusIcon_HEALTH raising_checks \<lparr>self_results = []\<rparr>
           = (Inr cat, self1)
         \<and> length (results cat) = 3
         \<and> status (results cat ! 0) = ERROR \<and> status (results cat ! 1) = ERROR
         \<and> status (results cat ! 2) = ERROR"
    using run2 by (intro exI [of _ cat2] exI [of _ self2]) simp
  from first second show ?thesis by (intro conjI)
qed

lemma run_checks_length:
  "run_checks checks rs = (raised, rs1) \<Longrightarrow>
     (raised = None \<longrightarrow> length rs1 = length rs + length checks)
     \<and> (\<forall>e. raised = Some e \<longrightarrow> \<not> is_Exception e \<and> length rs1 < length rs + length checks)"
proof (induction checks arbitrary: rs)
  case Nil
  then show ?case by auto
next
  case (Cons a checks)
  obtain nm c where a: "a = (nm, c)" by (cases a)
  show ?case
  proof (cases c)
    case (Inr r)
    with Cons.prems a have "run_checks checks (rs @ [r]) = (raised, rs1)" by simp
    from Cons.IH [OF this] show ?thesis by auto
  next
    case (Inl e)
    show ?thesis
    proof (cases "is_Exception e")
      case True
      with Cons.prems a Inl have "run_checks checks (rs @ [check_failed nm e]) = (raised, rs1)"
        by simp
      from Cons.IH [OF this] show ?thesis by auto
    next
      case False
      with Cons.prems a Inl show ?thesis by auto
    qed
  qed
qed

lemma health_checks_length: "length (health_checks F env) = 10"
  by (simp add: health_checks_def)

text \<open>
  C10. \<^verbatim>\<open>run_all_checks\<close> starts from an empty list whatever the checker held: what it
  returns does not depend on the state of the checker before the call, a returned category
  has exactly one result for each entry of the table of checks (ten for the health, the
  driver and the desktop checker, twelve for the security checker), and the checker keeps
  that same list. When an exception that is not an \<^verbatim>\<open>Exception\<close>
  leaves the method, no category is returned and the checker holds fewer results than the
  table has entries.
\<close>

theorem run_all_checks_resets:
  "run_all_checks category_name category_icon checks self
     = run_all_checks category_name category_icon checks self0
   \<and> (case run_all_checks category_name category_icon checks self of
         (Inr cat, self1) \<Rightarrow>
           length (results cat) = length checks \<and> self_results self1 = results cat
       | (Inl e, self1) \<Rightarrow>
           \<not> is_Exception e \<and> length (self_results self1) < length checks)
   \<and> (\<forall>cat self1. HealthChecker_run_all_checks F env self = (Inr cat, self1)
          \<longrightarrow> length (results cat) = 10)
   \<and> (\<forall>cat self1. DriverChecker_run_all_checks R penv self = (Inr cat, self1)
          \<longrightarrow> length (results cat) = 10)
   \<and> (\<forall>cat self1. SecurityChecker_run_all_checks R penv self = (Inr cat, self1)
          \<longrightarrow> length (results cat) = 12)
   \<and> (\<forall>cat self1. DesktopChecker_run_all_checks R penv desktop self = (Inr cat, self1)
          \<longrightarrow> length (results cat) = 10)"
proof -
  have indep: "run_all_checks category_name category_icon checks self
                 = run_all_checks category_name category_icon checks self0"
    by (cases self, cases self0) (simp add: run_all_checks_def)
  have shape: "\<And>cn ic cs. (case run_all_checks cn ic cs self of
         (Inr cat, self1) \<Rightarrow> length (results cat) = length cs \<and> self_results self1 = results cat
       | (Inl e, self1) \<Rightarrow> \<not> is_Exception e \<and> length (self_results self1) < length cs)"
  proof -
    fix cn ic cs
    obtain raised rs1 where r: "run_checks cs [] = (raised, rs1)" by (cases "run_checks cs []")
    from run_checks_length [OF r] r
    show "(case run_all_checks cn ic cs self of
         (Inr cat, self1) \<Rightarrow> length (results cat) = length cs \<and> self_results self1 = results cat
       | (Inl e, self1) \<Rightarrow> \<not> is_Exception e \<and> length (self_results self1) < length cs)"
      by (cases raised) (simp_all add: run_all_checks_def)
  qed
  have health: "\<forall>cat self1. HealthChecker_run_all_checks F env self = (Inr cat, self1)
          \<longrightarrow> length (results cat) = 10"
    using shape [where cn = "''Health Check''" and ic = StatusIcon_HEALTH
        and cs = "health_checks F env"]
    by (auto simp: HealthChecker_run_all_checks_def health_checks_length)
  have driver: "\<forall>cat self1. DriverChecker_run_all_checks R penv self = (Inr cat, self1)
          \<longrightarrow> length (results cat) = 10"
    using shape [where cn = "''Driver Check''" and ic = StatusIcon_DRIVER
        and cs = "driver_checks R penv"]
    by (auto simp: DriverChecker_run_all_checks_def driver_checks_def)
  have security: "\<forall>cat self1. SecurityChecker_run_all_checks R penv self = (Inr cat, self1)
          \<longrightarrow> length (results cat) = 12"
    using shape [where cn = "''Security Check''" and ic = StatusIcon_SECURITY
        and cs = "security_checks R penv"]
    by (auto simp: SecurityChecker_run_all_checks_def security_checks_def)
  have desktop: "\<forall>cat self1. DesktopChecker_run_all_checks R penv desktop self = (Inr cat, self1)
          \<longrightarrow> length (results cat) = 10"
    using shape [where cn = "''Desktop Check''" and ic = StatusIcon_DESKTOP
        and cs = "desktop_checks R penv desktop"]
    by (auto simp: DesktopChecker_run_all_checks_def desktop_checks_def)
  from indep shape [where cn = category_name and ic = category_icon and cs = checks] health
    driver security desktop
  show ?thesis by (intro conjI)
qed

text \<open>
  A checker that still holds the ten results of an earlier run returns ten results again,
  not twenty; and so does the second of two calls in a row.
\<close>

theorem run_all_checks_resets_witness:
  "(\<exists>cat self1.
      HealthChecker_run_all_checks plain_fmt no_memory_env
        \<lparr>self_results = replicate 10 (result_with FAIL)\<rparr> = (Inr cat, self1)
      \<and> length (results cat) = 10 \<and> self_results self1 = results cat)
   \<and> (\<exists>cat1 self1 cat2 self2.
         HealthChecker_run_all_checks plain_fmt no_memory_env \<lparr>self_results = []\<rparr> = (Inr cat1, self1)
         \<and> HealthChecker_run_all_checks plain_fmt no_memory_env self1 = (Inr cat2, self2)
         \<and> length (results cat2) = 10)"
proof -
  have h: "\<forall>(nm, c) \<in> set (health_checks plain_fmt no_memory_env). \<forall>e. c = Inl e \<longrightarrow> is_Exception e"
    by (simp add: health_checks_def no_memory_checks)
  have ret: "\<And>self. \<exists>cat self1. HealthChecker_run_all_checks plain_fmt no_memory_env self = (Inr cat, self1)"
    unfolding HealthChecker_run_all_checks_def
    by (simp add: run_all_checks_def run_checks_all [OF h])
  from ret [of "\<lparr>self_results = replicate 10 (result_with FAIL)\<rparr>"]
  obtain cat self1 where
    r: "HealthChecker_run_all_checks plain_fmt no_memory_env
          \<lparr>self_results = replicate 10 (result_with FAIL)\<rparr> = (Inr cat, self1)"
    by blast
  have "length (results cat) = 10 \<and> self_results self1 = results cat"
    using run_all_checks_resets [of "''Health Check''" StatusIcon_HEALTH
        "health_checks plain_fmt no_memory_env"
        "\<lparr>self_results = replicate 10 (result_with FAIL)\<rparr>" "\<lparr>self_results = []\<rparr>"
        plain_fmt no_memory_env, THEN conjunct2, THEN conjunct1]
      r [unfolded HealthChecker_run_all_checks_def]
    by (simp add: health_checks_length)
  with r have first: "\<exists>cat self1.
      HealthChecker_run_all_checks plain_fmt no_memory_env
        \<lparr>self_results = replicate 10 (result_with FAIL)\<rparr> = (Inr cat, self1)
      \<and> length (results cat) = 10 \<and> self_results self1 = results cat"
    by (intro exI [of _ cat] exI [of _ self1]) simp
  from ret [of "\<lparr>self_results = []\<rparr>"] obtain cat1 s1 where
    r1: "HealthChecker_run_all_checks plain_fmt no_memory_env \<lparr>self_results = []\<rparr> = (Inr cat1, s1)"
    by blast
  from ret [of s1] obtain cat2 s2 where
    r2: "HealthChecker_run_all_checks plain_fmt no_memory_env s1 = (Inr cat2, s2)"
    by blast
  have "length (results cat2) = 10"
    using run_all_checks_resets [of "''Health Check''" StatusIcon_HEALTH
        "health_checks plain_fmt no_memory_env" s1 s1 plain_fmt no_memory_env] r2
    by simp
  with r1 r2 have second: "\<exists>cat1 self1 cat2 self2.
         HealthChecker_run_all_checks plain_fmt no_memory_env \<lparr>self_results = []\<rparr> = (Inr cat1, self1)
         \<and> HealthChecker_run_all_checks plain_fmt no_memory_env self1 = (Inr cat2, self2)
         \<and> length (results cat2) = 10"
    by (intro exI [of _ cat1] exI [of _ s1] exI [of _ cat2] exI [of _ s2]) simp
  from first second show ?thesis by (intro conjI)
qed

subsection \<open>The entry point\<close>

text \<open>
  C9. The process exits with code 0 when the application returns, with code 0 when it is
  interrupted by the user (\<^verbatim>\<open>KeyboardInterrupt\<close>), and with code 1 when any
  \<^verbatim>\<open>Exception\<close> reaches \<^verbatim>\<open>main\<close>.
\<close>

theorem main_exit_codes:
  "exit_code (main (Inr ())) = Some 0
   \<and> exit_code (main (Inl KeyboardInterrupt)) = Some 0
   \<and> (\<forall>e. is_Exception e \<longrightarrow> exit_code (main (Inl e)) = Some 1)"
proof -
  have "\<And>e. is_Exception e \<Longrightarrow> exit_code (main (Inl e)) = Some 1"
  proof -
    fix e assume "is_Exception e"
    then show "exit_code (main (Inl e)) = Some 1"
      by (cases e) (simp_all add: main_def exit_code_def sys_exit_def)
  qed
  then show ?thesis by (simp add: main_def exit_code_def sys_exit_def)
qed

theorem main_exit_codes_witness:
  "is_Exception (Exception ''terminal unusable'')
   \<and> exit_code (main (Inl (Exception ''terminal unusable''))) = Some 1
   \<and> is_Exception (FileNotFoundError ''dnf'')
   \<and> exit_code (main (Inl (FileNotFoundError ''dnf''))) = Some 1"
  using main_exit_codes by simp

subsection \<open>Remediations\<close>

lemma run_command_invoked:
  "run_command sys cmd sudo timeout m = (r, m1) \<Longrightarrow>
     invoked m1 = invoked m @ [if sudo then ''sudo'' # cmd else cmd]"
  unfolding run_command_def Let_def
  by (cases "run_process sys (if sudo then ''sudo'' # cmd else cmd) timeout (world m)";
      cases "fst (run_process sys (if sudo then ''sudo'' # cmd else cmd) timeout (world m))")
     (auto split: pyexc.splits)

subsection \<open>The dispatcher\<close>

lemma generic_fix_declined: "generic_fix sys always_no r m = (Inr None, m)"
  by (simp add: generic_fix_def always_no_def)

text \<open>With every prompt declined, \<^verbatim>\<open>HealthFixer.apply_fix\<close> runs nothing and leaves the
  machine as it was, and so does \<^verbatim>\<open>DriverFixer.apply_fix\<close> on a result whose message does
  not hold \<^verbatim>\<open>blocked\<close>.\<close>

lemma HealthFixer_declined: "HealthFixer_apply_fix sys always_no r m = (Inr None, m)"
  by (simp add: HealthFixer_apply_fix_def generic_fix_declined always_no_def split: option.splits)

lemma DriverFixer_declined_unless_blocked:
  "\<not> contains ''blocked'' (lower (message r)) \<Longrightarrow>
     DriverFixer_apply_fix sys always_no r m = (Inr None, m)"
  by (simp add: DriverFixer_apply_fix_def DriverFixer_lookup_def generic_fix_declined
      always_no_def split: option.splits)

text \<open>
  C6 at the result that \<^verbatim>\<open>check_wifi_driver\<close> builds for a blocked card: the result is
  fixable, the user answers no to every prompt, and \<^verbatim>\<open>DriverFixer.apply_fix\<close> runs
  \<^verbatim>\<open>sudo rfkill unblock wifi\<close>; the state of the system changes.
\<close>

theorem DriverFixer_runs_unconfirmed:
  "fix_available wifi_blocked
   \<and> DriverFixer_apply_fix (scripted_os (\<lambda>cmd. True)) always_no wifi_blocked fresh_machine =
       (Inr (Some \<lparr>success = True, fix_message = ''WiFi unblocked'', fix_details = [],
                   requires_reboot = False\<rparr>),
        \<lparr>world = 1, invoked = [[''sudo'', ''rfkill'', ''unblock'', ''wifi'']]\<rparr>)"
  by code_simp

text \<open>
  C8 as stated fails: the name \<^verbatim>\<open>Disk Space\<close> has a handler in \<^verbatim>\<open>fix_map\<close>, the user
  declines the handler and accepts the command, and the literal command of the result runs.
\<close>

theorem literal_command_beside_handler:
  "fix_available disk_full
   \<and> HealthFixer_fix_map (scripted_os (\<lambda>cmd. True)) (name disk_full) \<noteq> None
   \<and> HealthFixer_apply_fix (scripted_os (\<lambda>cmd. True)) only_the_command disk_full fresh_machine =
       (Inr (Some \<lparr>success = True, fix_message = ''Fix applied'', fix_details = [],
                   requires_reboot = False\<rparr>),
        \<lparr>world = 1,
         invoked = [[''sudo'', ''bash'', ''-c'', ''dnf autoremove && dnf clean all'']]\<rparr>)"
  by (simp add: HealthFixer_apply_fix_def HealthFixer_fix_map_def disk_full_def only_the_command_def
      generic_fix_def run_command_def scripted_os_def fresh_machine_def startswith_def newline_def Let_def)

lemma generic_fix_runs:
  assumes "fix_command r \<noteq> []"
    and "ask (''Run fix command for [bold]'' @ name r @ ''[/]?'' @ newline
              @ ''[dim]'' @ fix_command r @ ''[/]'')"
  shows "\<exists>res m1. generic_fix sys ask r m = (res, m1)
           \<and> invoked m1 = invoked m @ [[''sudo'', ''bash'', ''-c'', fix_command r]]"
proof -
  obtain res m1 where rc: "run_command sys [''bash'', ''-c'', fix_command r] True 300 m = (res, m1)"
    by (cases "run_command sys [''bash'', ''-c'', fix_command r] True 300 m")
  from run_command_invoked [OF rc]
  have inv: "invoked m1 = invoked m @ [[''sudo'', ''bash'', ''-c'', fix_command r]]" by simp
  show ?thesis
  proof (cases res)
    case (Inl e)
    with assms rc inv show ?thesis by (simp add: generic_fix_def)
  next
    case (Inr p)
    obtain ok out where "p = (ok, out)" by (cases p)
    with Inr assms rc inv show ?thesis by (simp add: generic_fix_def)
  qed
qed

lemma HealthFixer_fix_map_names:
  "HealthFixer_fix_map sys n \<noteq> None \<longleftrightarrow>
     n \<in> {''Disk Space'', ''Failed Systemd Units'', ''Package Manager'', ''Orphaned Packages'',
          ''Swap Space''}"
  by (simp add: HealthFixer_fix_map_def)

text \<open>
  C8, as the code has it. For a result with \<^verbatim>\<open>fix_available\<close>: when its name has a
  handler in \<^verbatim>\<open>fix_map\<close> and the user accepts the prompt for it, the handler runs and
  nothing else. When there is no handler for the name, or the user declines that prompt,
  control reaches the generic block; there the literal command runs, as
  \<^verbatim>\<open>sudo bash -c\<close>, when the result carries one and the user accepts the prompt for the
  command, and nothing runs otherwise. The names with a handler are the five keys of
  \<^verbatim>\<open>fix_map\<close>.
\<close>

theorem apply_fix_dispatch:
  assumes "fix_available r"
  shows "(\<forall>fix_func.
            HealthFixer_fix_map sys (name r) = Some fix_func
            \<and> ask (''Apply fix for [bold]'' @ name r @ ''[/]?'')
            \<longrightarrow> HealthFixer_apply_fix sys ask r m = returning fix_func m)
         \<and> (HealthFixer_fix_map sys (name r) = None
              \<or> \<not> ask (''Apply fix for [bold]'' @ name r @ ''[/]?'')
            \<longrightarrow> HealthFixer_apply_fix sys ask r m = generic_fix sys ask r m)
         \<and> (fix_command r \<noteq> []
              \<and> ask (''Run fix command for [bold]'' @ name r @ ''[/]?'' @ newline
                      @ ''[dim]'' @ fix_command r @ ''[/]'')
            \<longrightarrow> (\<exists>res m1. generic_fix sys ask r m = (res, m1)
                  \<and> invoked m1 = invoked m @ [[''sudo'', ''bash'', ''-c'', fix_command r]]))
         \<and> (fix_command r = []
              \<or> \<not> ask (''Run fix command for [bold]'' @ name r @ ''[/]?'' @ newline
                        @ ''[dim]'' @ fix_command r @ ''[/]'')
            \<longrightarrow> generic_fix sys ask r m = (Inr None, m))
         \<and> (HealthFixer_fix_map sys (name r) \<noteq> None \<longleftrightarrow>
               name r \<in> {''Disk Space'', ''Failed Systemd Units'', ''Package Manager'',
                          ''Orphaned Packages'', ''Swap Space''})"
proof -
  have 1: "\<forall>fix_func.
            HealthFixer_fix_map sys (name r) = Some fix_func
            \<and> ask (''Apply fix for [bold]'' @ name r @ ''[/]?'')
            \<longrightarrow> HealthFixer_apply_fix sys ask r m = returning fix_func m"
    using assms by (simp add: HealthFixer_apply_fix_def)
  have 2: "HealthFixer_fix_map sys (name r) = None
              \<or> \<not> ask (''Apply fix for [bold]'' @ name r @ ''[/]?'')
            \<longrightarrow> HealthFixer_apply_fix sys ask r m = generic_fix sys ask r m"
    using assms by (auto simp: HealthFixer_apply_fix_def split: option.splits)
  have 3: "fix_command r \<noteq> []
              \<and> ask (''Run fix command for [bold]'' @ name r @ ''[/]?'' @ newline
                      @ ''[dim]'' @ fix_command r @ ''[/]'')
            \<longrightarrow> (\<exists>res m1. generic_fix sys ask r m = (res, m1)
                  \<and> invoked m1 = invoked m @ [[''sudo'', ''bash'', ''-c'', fix_command r]])"
  proof
    assume h: "fix_command r \<noteq> []
              \<and> ask (''Run fix command for [bold]'' @ name r @ ''[/]?'' @ newline
                      @ ''[dim]'' @ fix_command r @ ''[/]'')"
    from generic_fix_runs [where r = r and ask = ask and sys = sys and m = m,
        OF h [THEN conjunct1] h [THEN conjunct2]]
    show "\<exists>res m1. generic_fix sys ask r m = (res, m1)
                  \<and> invoked m1 = invoked m @ [[''sudo'', ''bash'', ''-c'', fix_command r]]" .
  qed
  have 4: "fix_command r = []
              \<or> \<not> ask (''Run fix command for [bold]'' @ name r @ ''[/]?'' @ newline
                        @ ''[dim]'' @ fix_command r @ ''[/]'')
            \<longrightarrow> generic_fix sys ask r m = (Inr None, m)"
    by (auto simp: generic_fix_def)
  note 5 = HealthFixer_fix_map_names [of sys "name r"]
  from 1 2 3 4 5 show ?thesis by (intro conjI)
qed

text \<open>
  On the full disk: a user who accepts the named fix gets \<^verbatim>\<open>fix_disk_space\<close>, four
  commands and none of them \<^verbatim>\<open>bash\<close>; a user who declines it and accepts the command
  gets the literal command; a user who declines both gets nothing.
\<close>

theorem apply_fix_dispatch_witness:
  "fix_available disk_full
   \<and> HealthFixer_apply_fix (scripted_os (\<lambda>cmd. True)) (\<lambda>prompt. True) disk_full fresh_machine
       = returning (fix_disk_space (scripted_os (\<lambda>cmd. True))) fresh_machine
   \<and> HealthFixer_apply_fix (scripted_os (\<lambda>cmd. True)) only_the_command disk_full fresh_machine
       = generic_fix (scripted_os (\<lambda>cmd. True)) only_the_command disk_full fresh_machine
   \<and> (\<exists>res m1. generic_fix (scripted_os (\<lambda>cmd. True)) only_the_command disk_full fresh_machine
                  = (res, m1)
         \<and> invoked m1 = [[''sudo'', ''bash'', ''-c'', ''dnf autoremove && dnf clean all'']])
   \<and> generic_fix (scripted_os (\<lambda>cmd. True)) always_no disk_full fresh_machine
       = (Inr None, fresh_machine)"
proof -
  let ?sys = "scripted_os (\<lambda>cmd. True)"
  have fa: "fix_available disk_full" by (simp add: disk_full_def)
  have fm: "HealthFixer_fix_map ?sys (name disk_full) = Some (fix_disk_space ?sys)"
    by (simp add: HealthFixer_fix_map_def disk_full_def)
  have a: "HealthFixer_apply_fix ?sys (\<lambda>prompt. True) disk_full fresh_machine
             = returning (fix_disk_space ?sys) fresh_machine"
    using apply_fix_dispatch [OF fa, of ?sys "\<lambda>prompt. True" fresh_machine, THEN conjunct1]
      fm by simp
  have no1: "\<not> only_the_command (''Apply fix for [bold]'' @ name disk_full @ ''[/]?'')"
    by (simp add: only_the_command_def startswith_def)
  have b: "HealthFixer_apply_fix ?sys only_the_command disk_full fresh_machine
             = generic_fix ?sys only_the_command disk_full fresh_machine"
    using apply_fix_dispatch [OF fa, of ?sys only_the_command fresh_machine,
        THEN conjunct2, THEN conjunct1] no1 by simp
  have yes2: "fix_command disk_full \<noteq> []
              \<and> only_the_command (''Run fix command for [bold]'' @ name disk_full @ ''[/]?''
                   @ newline @ ''[dim]'' @ fix_command disk_full @ ''[/]'')"
    by (simp add: only_the_command_def startswith_def disk_full_def)
  have c: "\<exists>res m1. generic_fix ?sys only_the_command disk_full fresh_machine = (res, m1)
         \<and> invoked m1 = [[''sudo'', ''bash'', ''-c'', ''dnf autoremove && dnf clean all'']]"
    using apply_fix_dispatch [OF fa, of ?sys only_the_command fresh_machine,
        THEN conjunct2, THEN conjunct2, THEN conjunct1, rule_format, OF yes2]
    by (simp add: fresh_machine_def disk_full_def)
  have d: "generic_fix ?sys always_no disk_full fresh_machine = (Inr None, fresh_machine)"
    using apply_fix_dispatch [OF fa, of ?sys always_no fresh_machine,
        THEN conjunct2, THEN conjunct2, THEN conjunct2, THEN conjunct1]
    by (simp add: always_no_def)
  from fa a b c d show ?thesis by (intro conjI)
qed

subsection \<open>The fix fields of a result\<close>

lemma check_failed_fix: "fix_available (check_failed nm e) = (fix_command (check_failed nm e) \<noteq> [])"
  by (simp add: check_failed_def)

lemma run_checks_invariant:
  assumes "\<forall>r \<in> set rs. P r"
    and "\<forall>(nm, c) \<in> set checks. \<forall>r. c = Inr r \<longrightarrow> P r"
    and "\<forall>nm e. P (check_failed nm e)"
  shows "\<forall>r \<in> set (snd (run_checks checks rs)). P r"
  using assms
proof (induction checks arbitrary: rs)
  case Nil
  then show ?case by simp
next
  case (Cons a checks)
  obtain nm c where a: "a = (nm, c)" by (cases a)
  from Cons.prems(2) have rest: "\<forall>(nm, c) \<in> set checks. \<forall>r. c = Inr r \<longrightarrow> P r" by simp
  show ?case
  proof (cases c)
    case (Inr r)
    with Cons.prems a have "\<forall>x \<in> set (rs @ [r]). P x" by simp
    from Cons.IH [OF this rest Cons.prems(3)] a Inr show ?thesis by simp
  next
    case (Inl e)
    show ?thesis
    proof (cases "is_Exception e")
      case True
      from Cons.prems(1,3) have "\<forall>x \<in> set (rs @ [check_failed nm e]). P x" by simp
      from Cons.IH [OF this rest Cons.prems(3)] a Inl True show ?thesis by simp
    next
      case False
      with Cons.prems(1) a Inl show ?thesis by simp
    qed
  qed
qed

lemma run_all_checks_invariant:
  assumes "\<forall>(nm, c) \<in> set checks. \<forall>r. c = Inr r \<longrightarrow> P r"
    and "\<forall>nm e. P (check_failed nm e)"
    and "run_all_checks category_name category_icon checks self = (Inr cat, self1)"
  shows "\<forall>r \<in> set (results cat). P r"
proof -
  obtain raised rs where rc: "run_checks checks [] = (raised, rs)" by (cases "run_checks checks []")
  have "\<forall>r \<in> set (snd (run_checks checks [])). P r"
    by (rule run_checks_invariant [OF _ assms(1,2)]) simp
  with rc have all: "\<forall>r \<in> set rs. P r" by simp
  from assms(3) rc have "results cat = rs"
    by (cases raised) (auto simp: run_all_checks_def)
  with all show ?thesis by simp
qed

lemma check_disk_space_fix:
  "check_disk_space F env = Inr r \<Longrightarrow> fix_available r = (fix_command r \<noteq> [])"
  by (auto simp: check_disk_space_def split: sum.splits prod.splits if_splits)

lemma check_memory_fix:
  "check_memory F env = Inr r \<Longrightarrow> fix_available r = (fix_command r \<noteq> [])"
  by (auto simp: check_memory_def Let_def split: sum.splits prod.splits if_splits)

lemma check_cpu_temperature_fix:
  "check_cpu_temperature F env = Inr r \<Longrightarrow> fix_available r = (fix_command r \<noteq> [])"
  by (auto simp: check_cpu_temperature_def Let_def split: sum.splits if_splits)

lemma check_swap_fix:
  "check_swap F env = Inr r \<Longrightarrow> fix_available r = (fix_command r \<noteq> [])"
  by (auto simp: check_swap_def Let_def split: sum.splits prod.splits if_splits)

lemma check_failed_units_fix:
  "check_failed_units env = Inr r \<Longrightarrow> fix_available r = (fix_command r \<noteq> [])"
  by (auto simp: check_failed_units_def split: sum.splits pyexc.splits if_splits)

lemma check_system_load_fix:
  "check_system_load F env = Inr r \<Longrightarrow> fix_available r = (fix_command r \<noteq> [])"
  by (auto simp: check_system_load_def Let_def split: sum.splits prod.splits if_splits)

lemma check_zombie_processes_fix:
  "check_zombie_processes env = Inr r \<Longrightarrow> fix_available r = (fix_command r \<noteq> [])"
  by (auto simp: check_zombie_processes_def split: sum.splits if_splits)

lemma check_dnf_status_fix:
  "check_dnf_status env = Inr r \<Longrightarrow> fix_available r = (fix_command r \<noteq> [])"
  by (auto simp: check_dnf_status_def split: sum.splits pyexc.splits if_splits)

lemma check_journal_errors_fix:
  "check_journal_errors env = Inr r \<Longrightarrow> fix_available r = (fix_command r \<noteq> [])"
  by (auto simp: check_journal_errors_def Let_def split: sum.splits if_splits)

lemma check_orphaned_packages_fix:
  "check_orphaned_packages env = Inr r \<Longrightarrow> fix_available r = (fix_command r \<noteq> [])"
  by (auto simp: check_orphaned_packages_def Let_def split: sum.splits if_splits)

lemma health_checks_fix:
  "\<forall>(nm, c) \<in> set (health_checks F env). \<forall>r. c = Inr r \<longrightarrow> fix_available r = (fix_command r \<noteq> [])"
  using check_disk_space_fix check_memory_fix check_cpu_temperature_fix check_swap_fix
    check_failed_units_fix check_system_load_fix check_zombie_processes_fix check_dnf_status_fix
    check_journal_errors_fix check_orphaned_packages_fix
  by (simp add: health_checks_def)
lemma gpu_pass_fix: "fix_available (gpu_pass R vendor driver gpu_text vga_lines)
                       = (fix_command (gpu_pass R vendor driver gpu_text vga_lines) \<noteq> [])"
  by (simp add: gpu_pass_def Let_def)

lemma check_gpu_driver_fix:
  "check_gpu_driver R env = Inr r \<Longrightarrow> fix_available r = (fix_command r \<noteq> [])"
  by (auto simp: check_gpu_driver_def then_do_def Let_def gpu_pass_fix
      split: sum.splits prod.splits if_splits)

lemma check_wifi_driver_fix:
  "check_wifi_driver R env = Inr r \<Longrightarrow> fix_available r = (fix_command r \<noteq> [])"
  by (auto simp: check_wifi_driver_def then_do_def Let_def
      split: sum.splits prod.splits if_splits)

lemma check_audio_driver_fix:
  "check_audio_driver R env = Inr r \<Longrightarrow> fix_available r = (fix_command r \<noteq> [])"
  by (auto simp: check_audio_driver_def then_do_def Let_def
      split: sum.splits prod.splits if_splits)

lemma check_bluetooth_fix:
  "check_bluetooth env = Inr r \<Longrightarrow> fix_available r = (fix_command r \<noteq> [])"
  by (auto simp: check_bluetooth_def then_do_def Let_def
      split: sum.splits prod.splits if_splits)

lemma check_usb_fix:
  "check_usb env = Inr r \<Longrightarrow> fix_available r = (fix_command r \<noteq> [])"
  by (auto simp: check_usb_def then_do_def Let_def
      split: sum.splits prod.splits if_splits)

lemma check_ethernet_fix:
  "check_ethernet R env = Inr r \<Longrightarrow> fix_available r = (fix_command r \<noteq> [])"
  by (auto simp: check_ethernet_def then_do_def Let_def
      split: sum.splits prod.splits if_splits)

lemma check_webcam_fix:
  "check_webcam R env = Inr r \<Longrightarrow> fix_available r = (fix_command r \<noteq> [])"
  by (auto simp: check_webcam_def then_do_def Let_def
      split: sum.splits prod.splits if_splits)

lemma check_firmware_fix:
  "check_firmware env = Inr r \<Longrightarrow> fix_available r = (fix_command r \<noteq> [])"
  by (auto simp: check_firmware_def then_do_def Let_def
      split: sum.splits prod.splits if_splits)

lemma check_kernel_modules_fix:
  "check_kernel_modules R env = Inr r \<Longrightarrow> fix_available r = (fix_command r \<noteq> [])"
  by (auto simp: check_kernel_modules_def then_do_def Let_def
      split: sum.splits prod.splits if_splits)

lemma check_hw_acceleration_fix:
  "check_hw_acceleration env = Inr r \<Longrightarrow> fix_available r = (fix_command r \<noteq> [])"
  by (auto simp: check_hw_acceleration_def then_do_def Let_def
      split: sum.splits prod.splits if_splits)

lemma driver_checks_fix:
  "\<forall>(nm, c) \<in> set (driver_checks R env). \<forall>r. c = Inr r \<longrightarrow> fix_available r = (fix_command r \<noteq> [])"
  using check_gpu_driver_fix check_wifi_driver_fix check_audio_driver_fix check_bluetooth_fix
    check_usb_fix check_ethernet_fix check_webcam_fix check_firmware_fix
    check_kernel_modules_fix check_hw_acceleration_fix
  by (simp add: driver_checks_def)
lemma check_firewall_fix:
  "check_firewall env = Inr r \<Longrightarrow> fix_available r = (fix_command r \<noteq> [])"
  by (auto simp: check_firewall_def then_do_def Let_def
      split: sum.splits prod.splits if_splits)

lemma check_selinux_fix:
  "check_selinux env = Inr r \<Longrightarrow> fix_available r = (fix_command r \<noteq> [])"
  by (auto simp: check_selinux_def then_do_def Let_def
      split: sum.splits prod.splits if_splits)

lemma check_ssh_config_fix:
  "check_ssh_config R env = Inr r \<Longrightarrow> fix_available r = (fix_command r \<noteq> [])"
  unfolding check_ssh_config_def then_do_def Let_def
  by (auto split: sum.splits prod.splits if_splits)

lemma check_open_ports_fix:
  "check_open_ports env = Inr r \<Longrightarrow> fix_available r = (fix_command r \<noteq> [])"
  by (auto simp: check_open_ports_def then_do_def Let_def
      split: sum.splits prod.splits if_splits)

lemma check_failed_logins_fix:
  "check_failed_logins env = Inr r \<Longrightarrow> fix_available r = (fix_command r \<noteq> [])"
  by (auto simp: check_failed_logins_def then_do_def Let_def
      split: sum.splits prod.splits if_splits)

lemma root_line_fix: "fix_available (root_line ls) = (fix_command (root_line ls) \<noteq> [])"
  by (induction ls) (simp_all add: Let_def)

lemma check_root_account_fix:
  "check_root_account env = Inr r \<Longrightarrow> fix_available r = (fix_command r \<noteq> [])"
  by (auto simp: check_root_account_def root_line_fix
      split: sum.splits pyexc.splits if_splits)

lemma check_sudo_fix:
  "check_sudo env = Inr r \<Longrightarrow> fix_available r = (fix_command r \<noteq> [])"
  by (auto simp: check_sudo_def then_do_def Let_def
      split: sum.splits prod.splits if_splits)

lemma check_auto_updates_fix:
  "check_auto_updates env = Inr r \<Longrightarrow> fix_available r = (fix_command r \<noteq> [])"
  by (auto simp: check_auto_updates_def then_do_def Let_def
      split: sum.splits prod.splits if_splits)

lemma check_password_policy_fix:
  "check_password_policy R env = Inr r \<Longrightarrow> fix_available r = (fix_command r \<noteq> [])"
  by (auto simp: check_password_policy_def then_do_def Let_def
      split: sum.splits prod.splits if_splits)

lemma check_sensitive_files_fix:
  "check_sensitive_files env = Inr r \<Longrightarrow> fix_available r = (fix_command r \<noteq> [])"
  by (auto simp: check_sensitive_files_def then_do_def Let_def
      split: sum.splits prod.splits if_splits)

lemma check_kernel_security_fix:
  "check_kernel_security env = Inr r \<Longrightarrow> fix_available r = (fix_command r \<noteq> [])"
  by (auto simp: check_kernel_security_def Let_def split: if_splits)

lemma check_antivirus_fix:
  "check_antivirus env = Inr r \<Longrightarrow> fix_available r = (fix_command r \<noteq> [])"
  by (auto simp: check_antivirus_def then_do_def Let_def
      split: sum.splits prod.splits if_splits)

lemma security_checks_fix:
  "\<forall>(nm, c) \<in> set (security_checks R env). \<forall>r. c = Inr r \<longrightarrow> fix_available r = (fix_command r \<noteq> [])"
  using check_firewall_fix check_selinux_fix check_ssh_config_fix check_open_ports_fix
    check_failed_logins_fix check_root_account_fix check_sudo_fix check_auto_updates_fix
    check_password_policy_fix check_sensitive_files_fix check_kernel_security_fix
    check_antivirus_fix
  by (simp add: security_checks_def)

lemma check_desktop_environment_fix:
  "check_desktop_environment R env self = Inr r \<Longrightarrow> fix_available r = (fix_command r \<noteq> [])"
  unfolding check_desktop_environment_def then_do_def Let_def
  by (auto split: sum.splits prod.splits if_splits)

lemma check_display_server_fix:
  "check_display_server env self = Inr r \<Longrightarrow> fix_available r = (fix_command r \<noteq> [])"
  by (auto simp: check_display_server_def split: if_splits)

lemma find_compositor_fix:
  "find_compositor env cs = Inr r \<Longrightarrow> fix_available r = (fix_command r \<noteq> [])"
proof (induction cs)
  case Nil
  then show ?case by auto
next
  case (Cons a cs)
  obtain nm cmd where a: "a = (nm, cmd)" by (cases a)
  with Cons show ?case
    by (auto simp: then_do_def split: sum.splits prod.splits if_splits)
qed

lemma check_compositor_fix:
  "check_compositor env self = Inr r \<Longrightarrow> fix_available r = (fix_command r \<noteq> [])"
  by (auto simp del: find_compositor.simps simp: check_compositor_def then_do_def
      dest: find_compositor_fix split: sum.splits prod.splits if_splits)

lemma find_display_manager_fix:
  "find_display_manager env ds = Inr r \<Longrightarrow> fix_available r = (fix_command r \<noteq> [])"
proof (induction ds)
  case Nil
  then show ?case by auto
next
  case (Cons a ds)
  obtain service nm where a: "a = (service, nm)" by (cases a)
  with Cons show ?case
    by (auto simp: then_do_def split: sum.splits prod.splits if_splits)
qed

lemma check_display_manager_fix:
  "check_display_manager env = Inr r \<Longrightarrow> fix_available r = (fix_command r \<noteq> [])"
  unfolding check_display_manager_def by (rule find_display_manager_fix)

lemma check_resolution_fix:
  "check_resolution R env self = Inr r \<Longrightarrow> fix_available r = (fix_command r \<noteq> [])"
  unfolding check_resolution_def then_do_def Let_def
  by (auto split: sum.splits prod.splits if_splits)

lemma check_themes_fix:
  "check_themes env = Inr r \<Longrightarrow> fix_available r = (fix_command r \<noteq> [])"
  unfolding check_themes_def then_do_def Let_def
  by (auto split: sum.splits if_splits)

lemma check_fonts_fix:
  "check_fonts env = Inr r \<Longrightarrow> fix_available r = (fix_command r \<noteq> [])"
  by (auto simp: check_fonts_def then_do_def Let_def
      split: sum.splits prod.splits if_splits)

lemma check_gnome_extensions_fix:
  "check_gnome_extensions env self = Inr r \<Longrightarrow> fix_available r = (fix_command r \<noteq> [])"
  by (auto simp: check_gnome_extensions_def then_do_def Let_def
      split: sum.splits prod.splits if_splits)

lemma check_flatpak_fix:
  "check_flatpak env = Inr r \<Longrightarrow> fix_available r = (fix_command r \<noteq> [])"
  by (auto simp: check_flatpak_def then_do_def Let_def
      split: sum.splits prod.splits if_splits)

lemma check_portals_fix:
  "check_portals env = Inr r \<Longrightarrow> fix_available r = (fix_command r \<noteq> [])"
  by (auto simp: check_portals_def then_do_def Let_def
      split: sum.splits prod.splits if_splits)

lemma desktop_checks_fix:
  "\<forall>(nm, c) \<in> set (desktop_checks R env self). \<forall>r. c = Inr r \<longrightarrow> fix_available r = (fix_command r \<noteq> [])"
  using check_desktop_environment_fix check_display_server_fix check_compositor_fix
    check_display_manager_fix check_resolution_fix check_themes_fix check_fonts_fix
    check_gnome_extensions_fix check_flatpak_fix check_portals_fix
  by (simp add: desktop_checks_def)
text \<open>
  C5. In the category that any of the four checkers returns, every result, whether a check
  built it or the aggregator built it for a check that raised, has \<^verbatim>\<open>fix_available\<close>
  true exactly when its \<^verbatim>\<open>fix_command\<close> is a non-empty string.
\<close>

theorem fix_fields_consistent:
  "(\<forall>cat self1 r.
      HealthChecker_run_all_checks F henv self = (Inr cat, self1) \<and> r \<in> set (results cat)
      \<longrightarrow> fix_available r = (fix_command r \<noteq> []))
   \<and> (\<forall>cat self1 r.
      DriverChecker_run_all_checks R env self = (Inr cat, self1) \<and> r \<in> set (results cat)
      \<longrightarrow> fix_available r = (fix_command r \<noteq> []))
   \<and> (\<forall>cat self1 r.
      SecurityChecker_run_all_checks R env self = (Inr cat, self1) \<and> r \<in> set (results cat)
      \<longrightarrow> fix_available r = (fix_command r \<noteq> []))
   \<and> (\<forall>cat self1 r.
      DesktopChecker_run_all_checks R env desktop self = (Inr cat, self1) \<and> r \<in> set (results cat)
      \<longrightarrow> fix_available r = (fix_command r \<noteq> []))"
proof -
  have err: "\<forall>nm e. fix_available (check_failed nm e) = (fix_command (check_failed nm e) \<noteq> [])"
    by (simp add: check_failed_fix)
  have 1: "\<forall>cat self1 r.
      HealthChecker_run_all_checks F henv self = (Inr cat, self1) \<and> r \<in> set (results cat)
      \<longrightarrow> fix_available r = (fix_command r \<noteq> [])"
    unfolding HealthChecker_run_all_checks_def
    using run_all_checks_invariant [OF health_checks_fix err] by blast
  have 2: "\<forall>cat self1 r.
      DriverChecker_run_all_checks R env self = (Inr cat, self1) \<and> r \<in> set (results cat)
      \<longrightarrow> fix_available r = (fix_command r \<noteq> [])"
    unfolding DriverChecker_run_all_checks_def
    using run_all_checks_invariant [OF driver_checks_fix err] by blast
  have 3: "\<forall>cat self1 r.
      SecurityChecker_run_all_checks R env self = (Inr cat, self1) \<and> r \<in> set (results cat)
      \<longrightarrow> fix_available r = (fix_command r \<noteq> [])"
    unfolding SecurityChecker_run_all_checks_def
    using run_all_checks_invariant [OF security_checks_fix err] by blast
  have 4: "\<forall>cat self1 r.
      DesktopChecker_run_all_checks R env desktop self = (Inr cat, self1) \<and> r \<in> set (results cat)
      \<longrightarrow> fix_available r = (fix_command r \<noteq> [])"
    unfolding DesktopChecker_run_all_checks_def
    using run_all_checks_invariant [OF desktop_checks_fix err] by blast
  from 1 2 3 4 show ?thesis by (intro conjI)
qed

lemma bare_driver_run:
  "(case DriverChecker_run_all_checks no_match bare_env \<lparr>self_results = []\<rparr> of
      (Inr cat, self1) \<Rightarrow>
        map status (results cat) = [SKIP, SKIP, FAIL, SKIP, SKIP, SKIP, SKIP, WARN, SKIP, WARN]
        \<and> map fix_command (results cat) =
            [[], [], ''dnf install alsa-plugins-pulseaudio pipewire-alsa'', [], [], [], [],
             ''dnf install fwupd'', [], ''dnf install libva-utils vdpauinfo mesa-va-drivers'']
    | (Inl e, self1) \<Rightarrow> False)"
  by code_simp

lemma no_memory_health_run:
  "\<exists>cat self1.
     HealthChecker_run_all_checks plain_fmt no_memory_env \<lparr>self_results = []\<rparr> = (Inr cat, self1)
     \<and> map fix_command (results cat) =
         [[], [], [], ''fallocate -l 4G /swapfile && chmod 600 /swapfile && mkswap /swapfile && swapon /swapfile'',
          [], [], [], [], [], []]"
proof -
  have h: "\<forall>(nm, c) \<in> set (health_checks plain_fmt no_memory_env). \<forall>e. c = Inl e \<longrightarrow> is_Exception e"
    by (simp add: health_checks_def no_memory_checks)
  show ?thesis
    unfolding HealthChecker_run_all_checks_def
    by (simp add: run_all_checks_def run_checks_all [OF h])
       (simp add: health_checks_def no_memory_checks check_failed_def)
qed

text \<open>
  On the system without swap whose memory cannot be read, the health checker returns ten
  results of which only the fourth, the missing swap, is fixable; on the bare system, the
  driver checker returns ten results of which the third, the eighth and the tenth are.
\<close>

theorem fix_fields_consistent_witness:
  "(\<exists>cat self1.
      HealthChecker_run_all_checks plain_fmt no_memory_env \<lparr>self_results = []\<rparr> = (Inr cat, self1)
      \<and> map fix_available (results cat)
          = [False, False, False, True, False, False, False, False, False, False])
   \<and> (\<exists>cat self1.
      DriverChecker_run_all_checks no_match bare_env \<lparr>self_results = []\<rparr> = (Inr cat, self1)
      \<and> map fix_available (results cat)
          = [False, False, True, False, False, False, False, True, False, True])"
proof -
  from no_memory_health_run obtain cat self1 where
    run: "HealthChecker_run_all_checks plain_fmt no_memory_env \<lparr>self_results = []\<rparr> = (Inr cat, self1)"
    and cmds: "map fix_command (results cat) =
         [[], [], [], ''fallocate -l 4G /swapfile && chmod 600 /swapfile && mkswap /swapfile && swapon /swapfile'',
          [], [], [], [], [], []]"
    by (elim exE conjE)
  note t = fix_fields_consistent [where F = plain_fmt and henv = no_memory_env
      and self = "\<lparr>self_results = []\<rparr>", THEN conjunct1, rule_format, OF conjI, OF run]
  have "\<forall>r \<in> set (results cat). fix_available r = (fix_command r \<noteq> [])"
    by (intro ballI t)
  then have "map fix_available (results cat) = map (\<lambda>c. c \<noteq> []) (map fix_command (results cat))"
    by (simp add: comp_def)
  with cmds have a: "map fix_available (results cat)
          = [False, False, False, True, False, False, False, False, False, False]" by simp
  obtain res self2 where
    run2: "DriverChecker_run_all_checks no_match bare_env \<lparr>self_results = []\<rparr> = (res, self2)"
    by (cases "DriverChecker_run_all_checks no_match bare_env \<lparr>self_results = []\<rparr>")
  with bare_driver_run obtain cat2 where res: "res = Inr cat2"
    and cmds2: "map fix_command (results cat2) =
            [[], [], ''dnf install alsa-plugins-pulseaudio pipewire-alsa'', [], [], [], [],
             ''dnf install fwupd'', [], ''dnf install libva-utils vdpauinfo mesa-va-drivers'']"
    by (cases res) auto
  from run2 res have run3:
    "DriverChecker_run_all_checks no_match bare_env \<lparr>self_results = []\<rparr> = (Inr cat2, self2)"
    by simp
  note t2 = fix_fields_consistent [where R = no_match and env = bare_env
      and self = "\<lparr>self_results = []\<rparr>", THEN conjunct2, THEN conjunct1, rule_format,
      OF conjI, OF run3]
  have "\<forall>r \<in> set (results cat2). fix_available r = (fix_command r \<noteq> [])"
    by (intro ballI t2)
  then have "map fix_available (results cat2) = map (\<lambda>c. c \<noteq> []) (map fix_command (results cat2))"
    by (simp add: comp_def)
  with cmds2 have b: "map fix_available (results cat2)
          = [False, False, True, False, False, False, False, True, False, True]" by simp
  from run a have first: "\<exists>cat self1.
      HealthChecker_run_all_checks plain_fmt no_memory_env \<lparr>self_results = []\<rparr> = (Inr cat, self1)
      \<and> map fix_available (results cat)
          = [False, False, False, True, False, False, False, False, False, False]"
    by (intro exI [of _ cat] exI [of _ self1]) simp
  from run2 res b have second: "\<exists>cat self1.
      DriverChecker_run_all_checks no_match bare_env \<lparr>self_results = []\<rparr> = (Inr cat, self1)
      \<and> map fix_available (results cat)
          = [False, False, True, False, False, False, False, True, False, True]"
    by (intro exI [of _ cat2] exI [of _ self2]) simp
  from first second show ?thesis by (intro conjI)
qed

end
